theory Spec2Isabelle
  imports Main "HOL-Library.AList"
begin

section \<open>JavaScript values\<close>

text \<open>
  The program is a TypeScript composition of resource descriptors. A descriptor's
  configuration is a JavaScript object literal, so configurations are modelled as values of
  one datatype of JavaScript values. Numbers are modelled as integers: the program only
  counts availability zones and tasks and compares percentages, and every number it is
  given by its entry point is an integer literal or a count.

  \<open>NativeFunction n\<close> is the built-in function named \<open>n\<close> that every object inherits from
  \<open>Object.prototype\<close>; \<open>PrototypeObject\<close> is \<open>Object.prototype\<close> itself.
\<close>

datatype jsval =
    Undefined
  | Null
  | Boolean bool
  | Number int
  | Str string
  | Array "jsval list"
  | Object "(string \<times> jsval) list"
  | NativeFunction string
  | PrototypeObject

text \<open>Decimal rendering of a number, as a template literal does it.\<close>

fun digits :: "nat \<Rightarrow> string" where
  "digits n = (if n < 10 then [''0123456789'' ! n]
               else digits (n div 10) @ [''0123456789'' ! (n mod 10)])"

definition Number_toString :: "int \<Rightarrow> string" where
  "Number_toString n = (if n < 0 then ''-'' @ digits (nat (- n)) else digits (nat n))"

fun join :: "string \<Rightarrow> string list \<Rightarrow> string" where
  "join sep [] = []"
| "join sep [x] = x"
| "join sep (x # y # ys) = x @ sep @ join sep (y # ys)"

text \<open>\<open>ToString\<close>: the conversion applied to a value interpolated into a template literal.\<close>

fun ToString :: "jsval \<Rightarrow> string" where
  "ToString Undefined = ''undefined''"
| "ToString Null = ''null''"
| "ToString (Boolean b) = (if b then ''true'' else ''false'')"
| "ToString (Number n) = Number_toString n"
| "ToString (Str s) = s"
| "ToString (Array xs) =
     join '','' (map (\<lambda>x. if x = Undefined \<or> x = Null then [] else ToString x) xs)"
| "ToString (Object fs) = ''[object Object]''"
| "ToString (NativeFunction n) = ''function '' @ n @ ''() { [native code] }''"
| "ToString PrototypeObject = ''[object Object]''"

text \<open>The test \<open>!v\<close> succeeds exactly on the values that are not truthy.\<close>

fun truthy :: "jsval \<Rightarrow> bool" where
  "truthy Undefined = False"
| "truthy Null = False"
| "truthy (Boolean b) = b"
| "truthy (Number n) = (n \<noteq> 0)"
| "truthy (Str s) = (s \<noteq> [])"
| "truthy (Array xs) = True"
| "truthy (Object fs) = True"
| "truthy (NativeFunction n) = True"
| "truthy PrototypeObject = True"

text \<open>
  The properties that every plain object inherits. Reading \<open>obj[k]\<close> finds an own property
  first, then an inherited one, and yields \<open>undefined\<close> only when neither exists.
\<close>

definition Object_prototype :: "(string \<times> jsval) list" where
  "Object_prototype =
    [(''constructor'', NativeFunction ''Object''),
     (''__defineGetter__'', NativeFunction ''__defineGetter__''),
     (''__defineSetter__'', NativeFunction ''__defineSetter__''),
     (''hasOwnProperty'', NativeFunction ''hasOwnProperty''),
     (''__lookupGetter__'', NativeFunction ''__lookupGetter__''),
     (''__lookupSetter__'', NativeFunction ''__lookupSetter__''),
     (''isPrototypeOf'', NativeFunction ''isPrototypeOf''),
     (''propertyIsEnumerable'', NativeFunction ''propertyIsEnumerable''),
     (''toString'', NativeFunction ''toString''),
     (''valueOf'', NativeFunction ''valueOf''),
     (''__proto__'', PrototypeObject),
     (''toLocaleString'', NativeFunction ''toLocaleString'')]"

definition js_get :: "(string \<times> jsval) list \<Rightarrow> string \<Rightarrow> jsval" where
  "js_get obj k =
     (case map_of obj k of
        Some v \<Rightarrow> v
      | None \<Rightarrow> (case map_of Object_prototype k of Some v \<Rightarrow> v | None \<Rightarrow> Undefined))"

text \<open>Property access on a value that the types say is an object literal.\<close>

fun member :: "jsval \<Rightarrow> string \<Rightarrow> jsval" where
  "member (Object fs) k = js_get fs k"
| "member v k = Undefined"

section \<open>Resource descriptors and the construct tree\<close>

text \<open>
  Every \<open>new K(scope, id, config)\<close> of the program creates a descriptor of kind \<open>K\<close> and
  attaches it to the construct tree. The tree is the state of the composition pass; it is
  kept as the list of descriptors in creation order. A descriptor holds the configuration
  it was created with and the raw overrides added to it afterwards.
\<close>

datatype kind =
    Vpc | InternetGateway | DataAwsAvailabilityZones | Subnet | Eip | NatGateway
  | RouteTable | RouteTableAssociation | AcmCertificate
  | SecurityGroup | SecurityGroupRule
  | S3Bucket | DataAwsIamPolicyDocument | S3BucketPolicy
  | Lb | LbTargetGroup | LbListener
  | CloudwatchLogGroup | SsmParameter | EcsCluster | EcrRepository
  | IamRole | IamRolePolicy | EcsTaskDefinition | DataAwsEcsTaskDefinition | EcsService
  | AppautoscalingTarget | AppautoscalingPolicy
  | DataAwsCallerIdentity | DataAwsRegion

text \<open>
  Modelled from the spec: the provider bindings (\<open>imports/providers/aws\<close>) are generated
  code that is not part of the sources. They give each descriptor class the name of the
  provisioning tool's resource type; the table below lists those names.
\<close>

fun terraformResourceType :: "kind \<Rightarrow> string" where
  "terraformResourceType Vpc = ''aws_vpc''"
| "terraformResourceType InternetGateway = ''aws_internet_gateway''"
| "terraformResourceType DataAwsAvailabilityZones = ''data.aws_availability_zones''"
| "terraformResourceType Subnet = ''aws_subnet''"
| "terraformResourceType Eip = ''aws_eip''"
| "terraformResourceType NatGateway = ''aws_nat_gateway''"
| "terraformResourceType RouteTable = ''aws_route_table''"
| "terraformResourceType RouteTableAssociation = ''aws_route_table_association''"
| "terraformResourceType AcmCertificate = ''aws_acm_certificate''"
| "terraformResourceType SecurityGroup = ''aws_security_group''"
| "terraformResourceType SecurityGroupRule = ''aws_security_group_rule''"
| "terraformResourceType S3Bucket = ''aws_s3_bucket''"
| "terraformResourceType DataAwsIamPolicyDocument = ''data.aws_iam_policy_document''"
| "terraformResourceType S3BucketPolicy = ''aws_s3_bucket_policy''"
| "terraformResourceType Lb = ''aws_lb''"
| "terraformResourceType LbTargetGroup = ''aws_lb_target_group''"
| "terraformResourceType LbListener = ''aws_lb_listener''"
| "terraformResourceType CloudwatchLogGroup = ''aws_cloudwatch_log_group''"
| "terraformResourceType SsmParameter = ''aws_ssm_parameter''"
| "terraformResourceType EcsCluster = ''aws_ecs_cluster''"
| "terraformResourceType EcrRepository = ''aws_ecr_repository''"
| "terraformResourceType IamRole = ''aws_iam_role''"
| "terraformResourceType IamRolePolicy = ''aws_iam_role_policy''"
| "terraformResourceType EcsTaskDefinition = ''aws_ecs_task_definition''"
| "terraformResourceType DataAwsEcsTaskDefinition = ''data.aws_ecs_task_definition''"
| "terraformResourceType EcsService = ''aws_ecs_service''"
| "terraformResourceType AppautoscalingTarget = ''aws_appautoscaling_target''"
| "terraformResourceType AppautoscalingPolicy = ''aws_appautoscaling_policy''"
| "terraformResourceType DataAwsCallerIdentity = ''data.aws_caller_identity''"
| "terraformResourceType DataAwsRegion = ''data.aws_region''"

record resource =
  kind :: kind
  path :: "string list"
  fqn :: string
  config :: "(string \<times> jsval) list"
  rawOverrides :: "(string \<times> jsval) list"

type_synonym tree = "resource list"

text \<open>
  A constructor either returns or throws; in both cases the tree built so far is part of
  the outcome, so that what had been created before a throw can be stated.
\<close>

datatype error = Error string

datatype 'a outcome = Threw error tree | Returned 'a tree

type_synonym 'a synth = "tree \<Rightarrow> 'a outcome"

definition return :: "'a \<Rightarrow> 'a synth" where
  "return x t = Returned x t"

definition throw :: "string \<Rightarrow> 'a synth" where
  "throw msg t = Threw (Error msg) t"

definition bind :: "'a synth \<Rightarrow> ('a \<Rightarrow> 'b synth) \<Rightarrow> 'b synth" where
  "bind m f t = (case m t of Threw e t' \<Rightarrow> Threw e t' | Returned x t' \<Rightarrow> f x t')"

fun tree_of :: "'a outcome \<Rightarrow> tree" where
  "tree_of (Threw e t) = t"
| "tree_of (Returned x t) = t"

fun threw :: "'a outcome \<Rightarrow> bool" where
  "threw (Threw e t) = True"
| "threw (Returned x t) = False"

fun result_of :: "'a outcome \<Rightarrow> 'a option" where
  "result_of (Threw e t) = None"
| "result_of (Returned x t) = Some x"

text \<open>
  The composition library (\<open>cdktf\<close>, \<open>constructs\<close>) is external to the repository. A
  descriptor's fully qualified name is its resource type followed by an identifier derived
  from its path in the tree; a deferred reference to an attribute that only the
  provisioning tool knows is the interpolation of that name and the attribute. The
  library refuses a second child with the same id in one scope; that check is not part of
  this development, and the ids built below differ from one another unless two input
  names differ only in letter case.
\<close>

definition friendlyUniqueId :: "string list \<Rightarrow> string" where
  "friendlyUniqueId p = join ''_'' p"

definition descriptor :: "kind \<Rightarrow> string list \<Rightarrow> string \<Rightarrow> (string \<times> jsval) list \<Rightarrow> resource" where
  "descriptor k this ident cfg =
     \<lparr>kind = k, path = this @ [ident],
      fqn = terraformResourceType k @ ''.'' @ friendlyUniqueId (this @ [ident]),
      config = cfg, rawOverrides = []\<rparr>"

definition new :: "kind \<Rightarrow> string list \<Rightarrow> string \<Rightarrow> (string \<times> jsval) list \<Rightarrow> resource synth" where
  "new k this ident cfg t =
     (let r = descriptor k this ident cfg in Returned r (t @ [r]))"

text \<open>
  \<open>r.addOverride(p, v)\<close> records the value \<open>v\<close> for the configuration path \<open>p\<close> on the
  descriptor object \<open>r\<close>; a later override of the same path replaces an earlier one. The
  object is found in the tree by its path.
\<close>

definition overrideIn :: "resource \<Rightarrow> string \<Rightarrow> jsval \<Rightarrow> tree \<Rightarrow> tree" where
  "overrideIn r p v t =
     map (\<lambda>x. if path x = path r
               then x\<lparr>rawOverrides := AList.update p v (rawOverrides x)\<rparr> else x) t"

definition addOverride :: "resource \<Rightarrow> string \<Rightarrow> jsval \<Rightarrow> unit synth" where
  "addOverride r p v t = Returned () (overrideIn r p v t)"

text \<open>
  \<open>getProp r f\<close> reads a field the descriptor was configured with (\<open>undefined\<close> when it was
  not); \<open>ref r a\<close> is the deferred reference to an attribute computed at provisioning time.
\<close>

definition getProp :: "resource \<Rightarrow> string \<Rightarrow> jsval" where
  "getProp r f = js_get (config r) f"

definition ref :: "resource \<Rightarrow> string \<Rightarrow> string" where
  "ref r a = ''${'' @ fqn r @ ''.'' @ a @ ''}''"

fun forEach :: "('a \<Rightarrow> unit synth) \<Rightarrow> 'a list \<Rightarrow> unit synth" where
  "forEach f [] = return ()"
| "forEach f (x # xs) = bind (f x) (\<lambda>_. forEach f xs)"

text \<open>\<open>xs.forEach((x, index) => ...)\<close>: the elements paired with their indices.\<close>

definition indexed :: "'a list \<Rightarrow> ('a \<times> nat) list" where
  "indexed xs = zip xs [0 ..< length xs]"

section \<open>Null overrides\<close>

definition SecurityGroupRule_propertiesToOverride :: "(string \<times> string) list" where
  "SecurityGroupRule_propertiesToOverride =
    [(''description'', ''description''),
     (''ipv6CidrBlocks'', ''ipv6_cidr_blocks''),
     (''prefixListIds'', ''prefix_list_ids''),
     (''sourceSecurityGroupId'', ''source_security_group_id''),
     (''self'', ''self''),
     (''cidrBlocks'', ''cidr_blocks'')]"

text \<open>
  The class \<open>SecurityGroupRule\<close> belongs to the generated provider bindings
  (\<open>imports/providers/aws\<close>), which are not part of the sources. What a rule object answers
  when the helper reads one of its properties, \<open>securityGroupRule[name]\<close>, is therefore a
  parameter, \<open>readProperty\<close>, of the helper and of the units that call it. The helpers
  for security groups and route tables read the lists \<open>ingress\<close>, \<open>egress\<close> and \<open>route\<close>,
  which the program configures wherever it calls them, and then the fields of the list
  elements, which are the object literals of that configuration.
\<close>

definition overrideNullValuesForSecurityGroupRule ::
  "(resource \<Rightarrow> string \<Rightarrow> jsval) \<Rightarrow> resource \<Rightarrow> resource synth" where
  "overrideNullValuesForSecurityGroupRule readProperty securityGroupRule =
     bind (forEach (\<lambda>propertyToOverride.
             if \<not> truthy (readProperty securityGroupRule (fst propertyToOverride))
             then addOverride securityGroupRule (snd propertyToOverride) Null
             else return ())
           SecurityGroupRule_propertiesToOverride)
       (\<lambda>_. return securityGroupRule)"

definition SecurityGroup_propertiesToOverride :: "(string \<times> string) list" where
  "SecurityGroup_propertiesToOverride =
    [(''description'', ''description''),
     (''ipv6CidrBlocks'', ''ipv6_cidr_blocks''),
     (''prefixListIds'', ''prefix_list_ids''),
     (''securityGroups'', ''security_groups''),
     (''self'', ''self''),
     (''cidrBlocks'', ''cidr_blocks'')]"

text \<open>
  \<open>elements v\<close> are the elements visited under the guard \<open>v?.length\<close>: none when the field
  is unset or the list is empty.
\<close>

fun elements :: "jsval \<Rightarrow> jsval list" where
  "elements (Array xs) = xs"
| "elements v = []"

definition overrideNullValuesForSecurityGroup :: "resource \<Rightarrow> resource synth" where
  "overrideNullValuesForSecurityGroup securityGroup =
     bind (forEach (\<lambda>(ingress, ingressIndex).
             forEach (\<lambda>propertyToOverride.
               if \<not> truthy (member ingress (fst propertyToOverride))
               then addOverride securityGroup
                      (''ingress.'' @ digits ingressIndex @ ''.'' @ snd propertyToOverride) Null
               else return ())
             SecurityGroup_propertiesToOverride)
           (indexed (elements (getProp securityGroup ''ingress''))))
    (\<lambda>_. bind (forEach (\<lambda>(egress, egressIndex).
             forEach (\<lambda>propertyToOverride.
               if \<not> truthy (member egress (fst propertyToOverride))
               then addOverride securityGroup
                      (''egress.'' @ digits egressIndex @ ''.'' @ snd propertyToOverride) Null
               else return ())
             SecurityGroup_propertiesToOverride)
           (indexed (elements (getProp securityGroup ''egress''))))
    (\<lambda>_. return securityGroup))"

definition RouteTable_propertiesToOverride :: "(string \<times> string) list" where
  "RouteTable_propertiesToOverride =
    [(''egressOnlyGatewayId'', ''egress_only_gateway_id''),
     (''instanceId'', ''instance_id''),
     (''ipv6CidrBlock'', ''ipv6_cidr_block''),
     (''localGatewayId'', ''local_gateway_id''),
     (''natGatewayId'', ''nat_gateway_id''),
     (''networkInterfaceId'', ''network_interface_id''),
     (''transitGatewayId'', ''transit_gateway_id''),
     (''vpcPeeringConnectionId'', ''vpc_peering_connection_id''),
     (''gatewayId'', ''gateway_id'')]"

definition overrideNullValuesForRouteTable :: "resource \<Rightarrow> resource synth" where
  "overrideNullValuesForRouteTable routeTable =
     bind (forEach (\<lambda>(route, routeIndex).
             forEach (\<lambda>propertyToOverride.
               if \<not> truthy (member route (fst propertyToOverride))
               then addOverride routeTable
                      (''route.'' @ digits routeIndex @ ''.'' @ snd propertyToOverride) Null
               else return ())
             RouteTable_propertiesToOverride)
           (indexed (elements (getProp routeTable ''route''))))
       (\<lambda>_. return routeTable)"

section \<open>Network composition\<close>

text \<open>
  Each construct class becomes a function of its \<open>scope\<close>, its \<open>id\<close> and the fields of its
  properties object, in the order the interface declares them. The fields a construct
  exposes become a record whose field names carry the construct's name.
\<close>

definition VpcConstruct :: "string list \<Rightarrow> string \<Rightarrow> string \<Rightarrow> resource synth" where
  "VpcConstruct scope ident resourceNamesPrefix =
     (let this = scope @ [ident] in
      new Vpc this ''vpc''
        [(''cidrBlock'', Str ''10.0.0.0/16''),
         (''enableDnsSupport'', Boolean True),
         (''enableDnsHostnames'', Boolean True),
         (''tags'', Object [(''Name'', Str (resourceNamesPrefix @ ''_vpc''))])])"

definition InternetGatewayConstruct ::
  "string list \<Rightarrow> string \<Rightarrow> string \<Rightarrow> resource \<Rightarrow> resource synth" where
  "InternetGatewayConstruct scope ident resourceNamesPrefix vpc =
     (let this = scope @ [ident] in
      new InternetGateway this ''internet_gateway''
        [(''vpcId'', Str (ref vpc ''id'')),
         (''tags'', Object [(''Name'', Str (resourceNamesPrefix @ ''_internet_gateway''))])])"

record SubnetsConstruct =
  Subnets_privateSubnets :: "resource list"
  Subnets_publicSubnets :: "resource list"

function SubnetsConstruct_private ::
  "string list \<Rightarrow> int \<Rightarrow> string \<Rightarrow> resource \<Rightarrow> resource \<Rightarrow> int \<Rightarrow> resource list
     \<Rightarrow> resource list synth" where
  \<open>SubnetsConstruct_private this numberOfAvailabilityZonesUsed resourceNamesPrefix vpc
      availabilityZones i privateSubnets t =
     (if i < numberOfAvailabilityZonesUsed
      then (case new Subnet this (''private_subnet_'' @ Number_toString (i + 1))
                   [(''availabilityZone'',
                       Str (''${'' @ fqn availabilityZones @ ''.names['' @ Number_toString i @ '']}'')),
                    (''cidrBlock'',
                       Str (''${cidrsubnet("'' @ ToString (getProp vpc ''cidrBlock'') @ ''", 8, ''
                            @ Number_toString i @ '')}'')),
                    (''vpcId'', Str (ref vpc ''id'')),
                    (''tags'', Object [(''Name'',
                       Str (resourceNamesPrefix @ ''_private_subnet_'' @ Number_toString (i + 1)))]),
                    (''lifecycle'', Object [(''createBeforeDestroy'', Boolean True)])] t of
              Returned subnet t' \<Rightarrow>
                SubnetsConstruct_private this numberOfAvailabilityZonesUsed resourceNamesPrefix vpc
                  availabilityZones (i + 1) (privateSubnets @ [subnet]) t'
            | Threw e t' \<Rightarrow> Threw e t')
      else Returned privateSubnets t)\<close>
  by pat_completeness auto
termination
  by (relation "measure (\<lambda>(this, n, pre, vpc, az, i, acc, t). nat (n - i))") auto

function SubnetsConstruct_public ::
  "string list \<Rightarrow> int \<Rightarrow> string \<Rightarrow> resource \<Rightarrow> resource \<Rightarrow> int \<Rightarrow> resource list
     \<Rightarrow> resource list synth" where
  \<open>SubnetsConstruct_public this numberOfAvailabilityZonesUsed resourceNamesPrefix vpc
      availabilityZones i publicSubnets t =
     (if i < max numberOfAvailabilityZonesUsed 2
      then (case new Subnet this (''public_subnet_'' @ Number_toString (i + 1))
                   [(''availabilityZone'',
                       Str (''${'' @ fqn availabilityZones @ ''.names['' @ Number_toString i @ '']}'')),
                    (''cidrBlock'',
                       Str (''${cidrsubnet("'' @ ToString (getProp vpc ''cidrBlock'') @ ''", 8, ''
                            @ Number_toString (i + 128) @ '')}'')),
                    (''vpcId'', Str (ref vpc ''id'')),
                    (''tags'', Object [(''Name'',
                       Str (resourceNamesPrefix @ ''_public_subnet_'' @ Number_toString (i + 1)))]),
                    (''mapPublicIpOnLaunch'', Boolean True),
                    (''lifecycle'', Object [(''createBeforeDestroy'', Boolean True)])] t of
              Returned subnet t' \<Rightarrow>
                SubnetsConstruct_public this numberOfAvailabilityZonesUsed resourceNamesPrefix vpc
                  availabilityZones (i + 1) (publicSubnets @ [subnet]) t'
            | Threw e t' \<Rightarrow> Threw e t')
      else Returned publicSubnets t)\<close>
  by pat_completeness auto
termination
  by (relation "measure (\<lambda>(this, n, pre, vpc, az, i, acc, t). nat (max n 2 - i))") auto

definition SubnetsConstruct ::
  "string list \<Rightarrow> string \<Rightarrow> int \<Rightarrow> string \<Rightarrow> resource \<Rightarrow> SubnetsConstruct synth" where
  "SubnetsConstruct scope ident numberOfAvailabilityZonesUsed resourceNamesPrefix vpc =
     (let this = scope @ [ident] in
      bind (new DataAwsAvailabilityZones this ''availability_zone'' []) (\<lambda>availabilityZones.
      bind (SubnetsConstruct_private this numberOfAvailabilityZonesUsed resourceNamesPrefix vpc
              availabilityZones 0 []) (\<lambda>privateSubnets.
      bind (SubnetsConstruct_public this numberOfAvailabilityZonesUsed resourceNamesPrefix vpc
              availabilityZones 0 []) (\<lambda>publicSubnets.
      return \<lparr>Subnets_privateSubnets = privateSubnets,
              Subnets_publicSubnets = publicSubnets\<rparr>))))"

function ElasticIpsConstruct_loop ::
  "string list \<Rightarrow> resource \<Rightarrow> int \<Rightarrow> string \<Rightarrow> int \<Rightarrow> resource list \<Rightarrow> resource list synth" where
  "ElasticIpsConstruct_loop this internetGateway numberOfAvailabilityZonesUsed resourceNamesPrefix
      i self t =
     (if i < numberOfAvailabilityZonesUsed
      then (case new Eip this (''elastic_ip_'' @ Number_toString (i + 1))
                   [(''tags'', Object [(''Name'',
                       Str (resourceNamesPrefix @ ''_elastic_ip_for_nat_gateway_''
                            @ Number_toString (i + 1)))]),
                    (''vpc'', Boolean True),
                    (''dependsOn'', Array [Str (fqn internetGateway)])] t of
              Returned eip t' \<Rightarrow>
                ElasticIpsConstruct_loop this internetGateway numberOfAvailabilityZonesUsed
                  resourceNamesPrefix (i + 1) (self @ [eip]) t'
            | Threw e t' \<Rightarrow> Threw e t')
      else Returned self t)"
  by pat_completeness auto
termination
  by (relation "measure (\<lambda>(this, igw, n, pre, i, acc, t). nat (n - i))") auto

definition ElasticIpsConstruct ::
  "string list \<Rightarrow> string \<Rightarrow> resource \<Rightarrow> int \<Rightarrow> string \<Rightarrow> resource list synth" where
  "ElasticIpsConstruct scope ident internetGateway numberOfAvailabilityZonesUsed resourceNamesPrefix =
     (let this = scope @ [ident] in
      ElasticIpsConstruct_loop this internetGateway numberOfAvailabilityZonesUsed
        resourceNamesPrefix 0 [])"

text \<open>
  \<open>xs[i].a\<close> throws a \<open>TypeError\<close> when \<open>i\<close> is not an index of \<open>xs\<close>, since the element
  is then \<open>undefined\<close>.
\<close>

definition element :: "resource list \<Rightarrow> int \<Rightarrow> resource synth" where
  "element xs i =
     (if 0 \<le> i \<and> i < int (length xs) then return (xs ! nat i)
      else throw ''TypeError: Cannot read properties of undefined'')"

function NatGatewaysConstruct_loop ::
  "string list \<Rightarrow> resource list \<Rightarrow> resource \<Rightarrow> int \<Rightarrow> resource list \<Rightarrow> string \<Rightarrow> int
     \<Rightarrow> resource list \<Rightarrow> resource list synth" where
  "NatGatewaysConstruct_loop this elasticIps internetGateway numberOfAvailabilityZonesUsed
      publicSubnets resourceNamesPrefix i self t =
     (if i < numberOfAvailabilityZonesUsed
      then (case bind (element elasticIps i) (\<lambda>elasticIp.
                 bind (element publicSubnets i) (\<lambda>publicSubnet.
                 new NatGateway this (''nat_gateway_'' @ Number_toString (i + 1))
                   [(''allocationId'', Str (ref elasticIp ''id'')),
                    (''subnetId'', Str (ref publicSubnet ''id'')),
                    (''tags'', Object [(''Name'',
                       Str (resourceNamesPrefix @ ''_nat_gateway_'' @ Number_toString (i + 1)))]),
                    (''dependsOn'', Array [Str (fqn internetGateway)])])) t of
              Returned natGateway t' \<Rightarrow>
                NatGatewaysConstruct_loop this elasticIps internetGateway
                  numberOfAvailabilityZonesUsed publicSubnets resourceNamesPrefix (i + 1)
                  (self @ [natGateway]) t'
            | Threw e t' \<Rightarrow> Threw e t')
      else Returned self t)"
  by pat_completeness auto
termination
  by (relation "measure (\<lambda>(this, eips, igw, n, pubs, pre, i, acc, t). nat (n - i))") auto

definition NatGatewaysConstruct ::
  "string list \<Rightarrow> string \<Rightarrow> resource list \<Rightarrow> resource \<Rightarrow> int \<Rightarrow> resource list \<Rightarrow> string
     \<Rightarrow> resource list synth" where
  "NatGatewaysConstruct scope ident elasticIps internetGateway numberOfAvailabilityZonesUsed
      publicSubnets resourceNamesPrefix =
     (let this = scope @ [ident] in
      if int (length elasticIps) < numberOfAvailabilityZonesUsed
      then throw ''The number of availability zones used must match the number of elastic IPs''
      else if int (length publicSubnets) < numberOfAvailabilityZonesUsed
      then throw ''The number of availability zones used must match the number of public subnets''
      else NatGatewaysConstruct_loop this elasticIps internetGateway
             numberOfAvailabilityZonesUsed publicSubnets resourceNamesPrefix 0 [])"

record RouteTablesConstruct =
  RouteTables_privateSubnetsRouteTables :: "resource list"
  RouteTables_publicSubnetsRouteTable :: resource

fun RouteTablesConstruct_private ::
  "string list \<Rightarrow> resource list \<Rightarrow> string \<Rightarrow> resource \<Rightarrow> (resource \<times> nat) list
     \<Rightarrow> resource list \<Rightarrow> resource list synth" where
  "RouteTablesConstruct_private this natGateways resourceNamesPrefix vpc []
      privateSubnetsRouteTables = return privateSubnetsRouteTables"
| "RouteTablesConstruct_private this natGateways resourceNamesPrefix vpc
      ((privateSubnet, index) # rest) privateSubnetsRouteTables =
     bind (element natGateways (int index)) (\<lambda>natGateway.
     bind (new RouteTable this (''private_subnets_route_table_'' @ Number_toString (int index + 1))
             [(''route'', Array [Object
                 [(''cidrBlock'', Str ''0.0.0.0/0''),
                  (''natGatewayId'', Str (ref natGateway ''id''))]]),
              (''tags'', Object [(''Name'',
                 Str (resourceNamesPrefix @ ''_route_table_for_private_subnet_''
                      @ Number_toString (int index + 1)))]),
              (''vpcId'', Str (ref vpc ''id''))]) (\<lambda>created.
     bind (overrideNullValuesForRouteTable created) (\<lambda>routeTable.
     RouteTablesConstruct_private this natGateways resourceNamesPrefix vpc rest
       (privateSubnetsRouteTables @ [routeTable]))))"

definition RouteTablesConstruct ::
  "string list \<Rightarrow> string \<Rightarrow> resource \<Rightarrow> resource list \<Rightarrow> resource list \<Rightarrow> resource list
     \<Rightarrow> string \<Rightarrow> resource \<Rightarrow> RouteTablesConstruct synth" where
  "RouteTablesConstruct scope ident internetGateway natGateways privateSubnets publicSubnets
      resourceNamesPrefix vpc =
     (let this = scope @ [ident] in
      if length natGateways \<noteq> length privateSubnets
      then throw ''The number of NAT gateways must match the number of private subnets''
      else
      bind (new RouteTable this ''public_subnets_route_table''
              [(''route'', Array [Object
                  [(''cidrBlock'', Str ''0.0.0.0/0''),
                   (''gatewayId'', Str (ref internetGateway ''id''))]]),
               (''tags'', Object [(''Name'',
                  Str (resourceNamesPrefix @ ''_route_table_for_public_subnets''))]),
               (''vpcId'', Str (ref vpc ''id''))]) (\<lambda>created.
      bind (overrideNullValuesForRouteTable created) (\<lambda>publicSubnetsRouteTable.
      bind (forEach (\<lambda>(publicSubnet, index).
              bind (new RouteTableAssociation this
                      (''public_subnets_route_table_association_'' @ Number_toString (int index + 1))
                      [(''routeTableId'', Str (ref publicSubnetsRouteTable ''id'')),
                       (''subnetId'', Str (ref publicSubnet ''id''))])
                (\<lambda>_. return ()))
            (indexed publicSubnets)) (\<lambda>_.
      bind (RouteTablesConstruct_private this natGateways resourceNamesPrefix vpc
              (indexed privateSubnets) []) (\<lambda>privateSubnetsRouteTables.
      bind (forEach (\<lambda>(privateSubnet, index).
              bind (element privateSubnetsRouteTables (int index)) (\<lambda>routeTable.
              bind (new RouteTableAssociation this
                      (''private_subnets_route_table_association_'' @ Number_toString (int index + 1))
                      [(''routeTableId'', Str (ref routeTable ''id'')),
                       (''subnetId'', Str (ref privateSubnet ''id''))])
                (\<lambda>_. return ())))
            (indexed privateSubnets)) (\<lambda>_.
      return \<lparr>RouteTables_privateSubnetsRouteTables = privateSubnetsRouteTables,
              RouteTables_publicSubnetsRouteTable = publicSubnetsRouteTable\<rparr>))))))"

record IDnsRecord =
  IDnsRecord_name :: string
  IDnsRecord_type :: string
  IDnsRecord_value :: string

record SslConstruct =
  Ssl_acmCertificate :: resource
  Ssl_validationDns :: "IDnsRecord list"

definition SslConstruct ::
  "string list \<Rightarrow> string \<Rightarrow> string list \<Rightarrow> string \<Rightarrow> SslConstruct synth" where
  \<open>SslConstruct scope ident domainNames resourceNamesPrefix =
     (let this = scope @ [ident] in
      if length domainNames = 0
      then throw ''You must specify at least one domain name''
      else
      bind (new AcmCertificate this ''acm_certificate''
              [(''domainName'', Str (hd domainNames)),
               (''subjectAlternativeNames'', Array (map Str (drop 1 domainNames))),
               (''validationMethod'', Str ''DNS''),
               (''tags'', Object [(''Name'', Str (resourceNamesPrefix @ ''_acm_certificate''))]),
               (''lifecycle'', Object [(''createBeforeDestroy'', Boolean True)])])
        (\<lambda>acmCertificate.
      return \<lparr>Ssl_acmCertificate = acmCertificate,
              Ssl_validationDns =
                map (\<lambda>(_, index).
                  \<lparr>IDnsRecord_name =
                     ''${tolist('' @ fqn acmCertificate @ ''.domain_validation_options)["''
                       @ digits index @ ''"].resource_record_name}'',
                   IDnsRecord_type =
                     ''${tolist('' @ fqn acmCertificate @ ''.domain_validation_options)["''
                       @ digits index @ ''"].resource_record_type}'',
                   IDnsRecord_value =
                     ''${tolist('' @ fqn acmCertificate @ ''.domain_validation_options)["''
                       @ digits index @ ''"].resource_record_value}''\<rparr>)
                  (indexed domainNames)\<rparr>))\<close>

text \<open>
  The account identifiers that store load balancer logs, by region. The table is a plain
  object literal and is read with \<open>js_get\<close>, own properties first.
\<close>

definition lbLogsBucketPolicyAccountIdDependingOnRegion :: "(string \<times> jsval) list" where
  "lbLogsBucketPolicyAccountIdDependingOnRegion =
    [(''us-east-1'', Str ''127311923021''),
     (''us-east-2'', Str ''033677994240''),
     (''us-west-1'', Str ''027434742980''),
     (''us-west-2'', Str ''797873946194''),
     (''af-south-1'', Str ''098369216593''),
     (''ca-central-1'', Str ''985666609251''),
     (''eu-central-1'', Str ''054676820928''),
     (''eu-west-1'', Str ''156460612806''),
     (''eu-west-2'', Str ''652711504416''),
     (''eu-south-1'', Str ''635631232127''),
     (''eu-west-3'', Str ''009996457667''),
     (''eu-north-1'', Str ''897822967062''),
     (''ap-east-1'', Str ''754344448648''),
     (''ap-northeast-1'', Str ''582318560864''),
     (''ap-northeast-2'', Str ''600734575887''),
     (''ap-northeast-3'', Str ''383597477331''),
     (''ap-southeast-1'', Str ''114774131450''),
     (''ap-southeast-2'', Str ''783225319266''),
     (''ap-south-1'', Str ''718504428378''),
     (''me-south-1'', Str ''076674570225''),
     (''sa-east-1'', Str ''507241528517''),
     (''us-gov-west-1'', Str ''048591011584''),
     (''us-gov-east-1'', Str ''190560391635''),
     (''cn-north-1'', Str ''638102146993''),
     (''cn-northwest-1'', Str ''037604701340'')]"

text \<open>\<open>s.replace(/_/gi, "-")\<close>\<close>

definition replace_underscores :: "string \<Rightarrow> string" where
  "replace_underscores s = map (\<lambda>c. if c = CHR ''_'' then CHR ''-'' else c) s"

record ApplicationLoadBalancerConstruct =
  ApplicationLoadBalancer_securityGroup :: resource
  ApplicationLoadBalancer_securityGroupEgressRule :: resource
  ApplicationLoadBalancer_self :: resource
  ApplicationLoadBalancer_targetGroup :: resource

definition ApplicationLoadBalancerConstruct ::
  "(resource \<Rightarrow> string \<Rightarrow> jsval) \<Rightarrow> string list \<Rightarrow> string \<Rightarrow> resource \<Rightarrow> resource \<Rightarrow> string \<Rightarrow> bool
     \<Rightarrow> resource list \<Rightarrow> string \<Rightarrow> resource \<Rightarrow> ApplicationLoadBalancerConstruct synth" where
  "ApplicationLoadBalancerConstruct readProperty scope ident acmCertificate currentAccount
      currentRegionAsString enableHttps publicSubnets resourceNamesPrefix vpc =
     (let this = scope @ [ident] in
      bind (new SecurityGroup this ''application_load_balancer_security_group''
              [(''description'',
                  Str ''Allow inbound HTTP/HTTPS traffic to application load balancer''),
               (''name'', Str (resourceNamesPrefix @ ''_lb_security_group'')),
               (''tags'', Object [(''Name'', Str (resourceNamesPrefix @ ''_lb_security_group''))]),
               (''vpcId'', Str (ref vpc ''id''))]) (\<lambda>securityGroup.
      bind (new SecurityGroupRule this
              ''application_load_balancer_security_group_http_ingress_rule''
              [(''type'', Str ''ingress''),
               (''fromPort'', Number 80),
               (''toPort'', Number 80),
               (''protocol'', Str ''tcp''),
               (''cidrBlocks'', Array [Str ''0.0.0.0/0'']),
               (''securityGroupId'', Str (ref securityGroup ''id''))]) (\<lambda>httpIngressRule.
      bind (overrideNullValuesForSecurityGroupRule readProperty httpIngressRule) (\<lambda>_.
      bind (new SecurityGroupRule this
              ''application_load_balancer_security_group_https_ingress_rule''
              [(''type'', Str ''ingress''),
               (''fromPort'', Number 443),
               (''toPort'', Number 443),
               (''protocol'', Str ''tcp''),
               (''cidrBlocks'', Array [Str ''0.0.0.0/0'']),
               (''securityGroupId'', Str (ref securityGroup ''id''))]) (\<lambda>httpsIngressRule.
      bind (overrideNullValuesForSecurityGroupRule readProperty httpsIngressRule) (\<lambda>_.
      bind (new SecurityGroupRule this ''application_load_balancer_security_group_egress_rule''
              [(''type'', Str ''egress''),
               (''fromPort'', Number 0),
               (''toPort'', Number 0),
               (''protocol'', Str ''-1''),
               (''securityGroupId'', Str (ref securityGroup ''id'')),
               (''sourceSecurityGroupId'', Str [])]) (\<lambda>egressRule.
      bind (overrideNullValuesForSecurityGroupRule readProperty egressRule) (\<lambda>securityGroupEgressRule.
      bind (new S3Bucket this ''application_load_balancer_logs_bucket''
              [(''acl'', Str ''private''),
               (''bucket'', Str (replace_underscores resourceNamesPrefix @ ''-alb-logs-bucket'')),
               (''forceDestroy'', Boolean True)]) (\<lambda>applicationLoadBalancerLogsBucket.
      bind (new DataAwsIamPolicyDocument this
              ''application_load_balancer_logs_bucket_policy_document''
              [(''version'', Str ''2012-10-17''),
               (''statement'', Array
                 [Object
                   [(''effect'', Str ''Allow''),
                    (''principals'', Array [Object
                       [(''type'', Str ''AWS''),
                        (''identifiers'', Array
                          [Str (''arn:aws:iam::''
                                @ ToString (js_get lbLogsBucketPolicyAccountIdDependingOnRegion
                                              currentRegionAsString)
                                @ '':root'')])]]),
                    (''actions'', Array [Str ''s3:PutObject'']),
                    (''resources'', Array
                       [Str (''arn:aws:s3:::''
                             @ ToString (getProp applicationLoadBalancerLogsBucket ''bucket'')
                             @ ''/AWSLogs/'' @ ref currentAccount ''account_id'' @ ''/*'')])],
                  Object
                   [(''effect'', Str ''Allow''),
                    (''principals'', Array [Object
                       [(''type'', Str ''Service''),
                        (''identifiers'', Array [Str ''delivery.logs.amazonaws.com''])]]),
                    (''actions'', Array [Str ''s3:PutObject'']),
                    (''resources'', Array
                       [Str (''arn:aws:s3:::''
                             @ ToString (getProp applicationLoadBalancerLogsBucket ''bucket'')
                             @ ''/AWSLogs/'' @ ref currentAccount ''account_id'' @ ''/*'')]),
                    (''condition'', Array [Object
                       [(''test'', Str ''StringEquals''),
                        (''variable'', Str ''s3:x-amz-acl''),
                        (''values'', Array [Str ''bucket-owner-full-control''])]])],
                  Object
                   [(''effect'', Str ''Allow''),
                    (''principals'', Array [Object
                       [(''type'', Str ''Service''),
                        (''identifiers'', Array [Str ''delivery.logs.amazonaws.com''])]]),
                    (''actions'', Array [Str ''s3:GetBucketAcl'']),
                    (''resources'', Array
                       [Str (''arn:aws:s3:::''
                             @ ToString (getProp applicationLoadBalancerLogsBucket ''bucket''))])]])])
        (\<lambda>applicationLoadBalancerLogsBucketPolicyDocument.
      bind (new S3BucketPolicy this ''application_load_balancer_logs_bucket_policy''
              [(''bucket'', Str (ToString (getProp applicationLoadBalancerLogsBucket ''bucket''))),
               (''policy'', Str (ref applicationLoadBalancerLogsBucketPolicyDocument ''json'')),
               (''dependsOn'', Array [Str (fqn applicationLoadBalancerLogsBucket)])]) (\<lambda>_.
      bind (new Lb this ''application_load_balancer''
              [(''internal'', Boolean False),
               (''loadBalancerType'', Str ''application''),
               (''name'', Str (take 32 (replace_underscores resourceNamesPrefix))),
               (''securityGroups'', Array [Str (ref securityGroup ''id'')]),
               (''subnets'', Array (map (\<lambda>publicSubnet. Str (ref publicSubnet ''id'')) publicSubnets)),
               (''accessLogs'', Array [Object
                  [(''enabled'', Boolean True),
                   (''bucket'',
                      Str (ToString (getProp applicationLoadBalancerLogsBucket ''bucket'')))]]),
               (''dependsOn'', Array [Str (fqn applicationLoadBalancerLogsBucket)])]) (\<lambda>self.
      bind (new LbTargetGroup this ''application_load_balancer_target_group''
              [(''name'', Str (take 32 (replace_underscores resourceNamesPrefix))),
               (''port'', Number 80),
               (''protocol'', Str ''HTTP''),
               (''targetType'', Str ''ip''),
               (''vpcId'', Str (ref vpc ''id'')),
               (''healthCheck'', Array [Object
                  [(''enabled'', Boolean True),
                   (''healthyThreshold'', Number 5),
                   (''interval'', Number 5),
                   (''path'', Str ''/''),
                   (''protocol'', Str ''HTTP''),
                   (''timeout'', Number 4),
                   (''unhealthyThreshold'', Number 2)]]),
               (''dependsOn'', Array [Str (fqn self)])]) (\<lambda>targetGroup.
      bind (new LbListener this ''application_load_balancer_https_listener''
              [(''certificateArn'', Str (ref acmCertificate ''arn'')),
               (''defaultAction'', Array [Object
                  [(''targetGroupArn'', Str (ref targetGroup ''arn'')),
                   (''type'', Str ''forward'')]]),
               (''loadBalancerArn'', Str (ref self ''arn'')),
               (''port'', Number 443),
               (''protocol'', Str ''HTTPS''),
               (''dependsOn'', Array [Str (fqn targetGroup), Str (fqn acmCertificate)])])
        (\<lambda>httpsListener.
      bind (new LbListener this ''application_load_balancer_http_listener''
              [(''defaultAction'', Array
                  [if enableHttps
                   then Object
                     [(''type'', Str ''redirect''),
                      (''redirect'', Array [Object
                         [(''port'', Str ''443''),
                          (''protocol'', Str ''HTTPS''),
                          (''statusCode'', Str ''HTTP_301'')]])]
                   else Object
                     [(''targetGroupArn'', Str (ref targetGroup ''arn'')),
                      (''type'', Str ''forward'')]]),
               (''loadBalancerArn'', Str (ref self ''arn'')),
               (''port'', Number 80),
               (''protocol'', Str ''HTTP''),
               (''dependsOn'',
                  (if enableHttps
                   then Array [Str (fqn targetGroup), Str (fqn httpsListener)]
                   else Array [Str (fqn targetGroup)]))]) (\<lambda>_.
      return \<lparr>ApplicationLoadBalancer_securityGroup = securityGroup,
              ApplicationLoadBalancer_securityGroupEgressRule = securityGroupEgressRule,
              ApplicationLoadBalancer_self = self,
              ApplicationLoadBalancer_targetGroup = targetGroup\<rparr>)))))))))))))))"

record NetworkConstruct =
  Network_applicationLoadBalancer :: resource
  Network_applicationLoadBalancerSecurityGroup :: resource
  Network_applicationLoadBalancerSecurityGroupEgressRule :: resource
  Network_applicationLoadBalancerTargetGroup :: resource
  Network_privateSubnets :: "resource list"
  Network_sslValidationDnsRecords :: "IDnsRecord list"
  Network_vpc :: resource

definition NetworkConstruct ::
  "(resource \<Rightarrow> string \<Rightarrow> jsval) \<Rightarrow> string list \<Rightarrow> string \<Rightarrow> resource \<Rightarrow> string \<Rightarrow> string list \<Rightarrow> bool
     \<Rightarrow> int \<Rightarrow> string \<Rightarrow> NetworkConstruct synth" where
  "NetworkConstruct readProperty scope ident currentAccount currentRegionAsString domainNames
      enableHttps numberOfAvailabilityZonesUsed resourceNamesPrefix =
     (let this = scope @ [ident] in
      bind (VpcConstruct this ''vpc'' resourceNamesPrefix) (\<lambda>vpc.
      bind (InternetGatewayConstruct this ''internet_gateway'' resourceNamesPrefix vpc)
        (\<lambda>internetGateway.
      bind (SubnetsConstruct this ''subnets'' numberOfAvailabilityZonesUsed resourceNamesPrefix vpc)
        (\<lambda>subnets.
      bind (ElasticIpsConstruct this ''elastic_ips'' internetGateway
              numberOfAvailabilityZonesUsed resourceNamesPrefix) (\<lambda>elasticIps.
      bind (NatGatewaysConstruct this ''nat_gateways'' elasticIps internetGateway
              numberOfAvailabilityZonesUsed (Subnets_publicSubnets subnets) resourceNamesPrefix)
        (\<lambda>natGateways.
      bind (RouteTablesConstruct this ''route_tables'' internetGateway natGateways
              (Subnets_privateSubnets subnets) (Subnets_publicSubnets subnets)
              resourceNamesPrefix vpc) (\<lambda>_.
      bind (SslConstruct this ''ssl'' domainNames resourceNamesPrefix) (\<lambda>ssl.
      bind (ApplicationLoadBalancerConstruct readProperty this ''application_load_balancer''
              (Ssl_acmCertificate ssl) currentAccount currentRegionAsString enableHttps
              (Subnets_publicSubnets subnets) resourceNamesPrefix vpc) (\<lambda>applicationLoadBalancer.
      return
        \<lparr>Network_applicationLoadBalancer =
           ApplicationLoadBalancer_self applicationLoadBalancer,
         Network_applicationLoadBalancerSecurityGroup =
           ApplicationLoadBalancer_securityGroup applicationLoadBalancer,
         Network_applicationLoadBalancerSecurityGroupEgressRule =
           ApplicationLoadBalancer_securityGroupEgressRule applicationLoadBalancer,
         Network_applicationLoadBalancerTargetGroup =
           ApplicationLoadBalancer_targetGroup applicationLoadBalancer,
         Network_privateSubnets = Subnets_privateSubnets subnets,
         Network_sslValidationDnsRecords = Ssl_validationDns ssl,
         Network_vpc = vpc\<rparr>)))))))))"

section \<open>Computing composition\<close>

text \<open>
  \<open>EnvironmentVariables\<close> is a plain object from names to strings. \<open>Object.keys\<close> lists
  the own property names: those that are array indices first, in ascending order, then
  the others in the order they were created.
\<close>

type_synonym EnvironmentVariables = "(string \<times> jsval) list"

definition nat_of_digits :: "string \<Rightarrow> nat" where
  "nat_of_digits s = foldl (\<lambda>a c. 10 * a + (of_char c - 48)) 0 s"

definition is_array_index :: "string \<Rightarrow> bool" where
  "is_array_index s \<longleftrightarrow>
     s \<noteq> [] \<and> (\<forall>c \<in> set s. 48 \<le> (of_char c :: nat) \<and> (of_char c :: nat) \<le> 57)
     \<and> (s = ''0'' \<or> hd s \<noteq> CHR ''0'') \<and> nat_of_digits s < 2 ^ 32 - 1"

definition Object_keys :: "(string \<times> jsval) list \<Rightarrow> string list" where
  "Object_keys obj =
     sort_key nat_of_digits (filter is_array_index (map fst obj))
     @ filter (\<lambda>k. \<not> is_array_index k) (map fst obj)"

text \<open>\<open>s.toLowerCase()\<close>, on the letters a configuration name may contain.\<close>

definition toLowerCase :: "string \<Rightarrow> string" where
  "toLowerCase s =
     map (\<lambda>c. if 65 \<le> (of_char c :: nat) \<and> (of_char c :: nat) \<le> 90
               then char_of ((of_char c :: nat) + 32) else c) s"

record EnvironmentVariablesConstruct =
  EnvironmentVariables_applicationEnvironmentVariables :: "resource list"
  EnvironmentVariables_buildsEnvironmentVariables :: "resource list"

text \<open>
  \<open>escapeTemplateForTerraform\<close> is a utility of the repository that is not among the
  sources; the constructs that call it take it as their first argument.
\<close>

fun EnvironmentVariablesConstruct_application ::
  "(string \<Rightarrow> string) \<Rightarrow> string list \<Rightarrow> EnvironmentVariables \<Rightarrow> string \<Rightarrow> string list
     \<Rightarrow> resource list \<Rightarrow> resource list synth" where
  "EnvironmentVariablesConstruct_application escapeTemplateForTerraform this
      environmentVariables resourceNamesPrefix [] applicationEnvironmentVariables =
     return applicationEnvironmentVariables"
| "EnvironmentVariablesConstruct_application escapeTemplateForTerraform this
      environmentVariables resourceNamesPrefix (environmentVariableName # rest)
      applicationEnvironmentVariables =
     bind (new SsmParameter this
             (''ssm_parameter_application_'' @ toLowerCase environmentVariableName)
             [(''name'', Str (''/'' @ resourceNamesPrefix @ ''/fargate-tasks-env/''
                              @ environmentVariableName)),
              (''type'', Str ''SecureString''),
              (''value'', Str (escapeTemplateForTerraform
                 (ToString (js_get environmentVariables environmentVariableName)))),
              (''tags'', Object [(''name'', Str environmentVariableName)])]) (\<lambda>ssmParameter.
     EnvironmentVariablesConstruct_application escapeTemplateForTerraform this
       environmentVariables resourceNamesPrefix rest
       (applicationEnvironmentVariables @ [ssmParameter]))"

fun EnvironmentVariablesConstruct_builds ::
  "(string \<Rightarrow> string) \<Rightarrow> string list \<Rightarrow> EnvironmentVariables \<Rightarrow> string \<Rightarrow> string list
     \<Rightarrow> resource list \<Rightarrow> resource list synth" where
  "EnvironmentVariablesConstruct_builds escapeTemplateForTerraform this
      buildsEnvironmentVariables resourceNamesPrefix [] acc = return acc"
| "EnvironmentVariablesConstruct_builds escapeTemplateForTerraform this
      buildsEnvironmentVariables resourceNamesPrefix (environmentVariableName # rest) acc =
     bind (new SsmParameter this
             (''ssm_parameter_builds_'' @ toLowerCase environmentVariableName)
             [(''name'', Str (''/'' @ resourceNamesPrefix @ ''/builds-env/''
                              @ environmentVariableName)),
              (''type'', Str ''SecureString''),
              (''value'', Str (escapeTemplateForTerraform
                 (ToString (js_get buildsEnvironmentVariables environmentVariableName)))),
              (''tags'', Object [(''name'', Str environmentVariableName)])]) (\<lambda>ssmParameter.
     EnvironmentVariablesConstruct_builds escapeTemplateForTerraform this
       buildsEnvironmentVariables resourceNamesPrefix rest (acc @ [ssmParameter]))"

definition EnvironmentVariablesConstruct ::
  "(string \<Rightarrow> string) \<Rightarrow> string list \<Rightarrow> string \<Rightarrow> EnvironmentVariables \<Rightarrow> EnvironmentVariables
     \<Rightarrow> string \<Rightarrow> EnvironmentVariablesConstruct synth" where
  "EnvironmentVariablesConstruct escapeTemplateForTerraform scope ident
      buildsEnvironmentVariables environmentVariables resourceNamesPrefix =
     (let this = scope @ [ident] in
      bind (EnvironmentVariablesConstruct_application escapeTemplateForTerraform this
              environmentVariables resourceNamesPrefix (Object_keys environmentVariables) [])
        (\<lambda>applicationEnvironmentVariables.
      bind (EnvironmentVariablesConstruct_builds escapeTemplateForTerraform this
              buildsEnvironmentVariables resourceNamesPrefix
              (Object_keys buildsEnvironmentVariables) [])
        (\<lambda>builds.
      return \<lparr>EnvironmentVariables_applicationEnvironmentVariables =
                applicationEnvironmentVariables,
              EnvironmentVariables_buildsEnvironmentVariables = builds\<rparr>)))"

definition ClusterConstruct :: "string list \<Rightarrow> string \<Rightarrow> string \<Rightarrow> resource synth" where
  "ClusterConstruct scope ident resourceNamesPrefix =
     (let this = scope @ [ident] in
      new EcsCluster this ''fargate_cluster''
        [(''name'', Str (resourceNamesPrefix @ ''_fargate_cluster''))])"

definition RepositoryConstruct ::
  "string list \<Rightarrow> string \<Rightarrow> string \<Rightarrow> string \<Rightarrow> resource synth" where
  "RepositoryConstruct scope ident dockerImageName resourceNamesPrefix =
     (let this = scope @ [ident] in
      new EcrRepository this ''ecr_repository''
        [(''name'', Str (resourceNamesPrefix @ ''_ecr_repository/'' @ dockerImageName))])"

text \<open>\<open>JSON.stringify\<close>, on the values the container definitions are built from.\<close>

fun JSON_quote_char :: "char \<Rightarrow> string" where
  "JSON_quote_char c =
     (let n = (of_char c :: nat) in
      if n = 34 then [CHR 0x5C, CHR 0x22]
      else if n = 92 then [CHR 0x5C, CHR 0x5C]
      else if n = 8 then [CHR 0x5C, CHR ''b'']
      else if n = 12 then [CHR 0x5C, CHR ''f'']
      else if n = 10 then [CHR 0x5C, CHR ''n'']
      else if n = 13 then [CHR 0x5C, CHR ''r'']
      else if n = 9 then [CHR 0x5C, CHR ''t'']
      else if n < 32 then [CHR 0x5C, CHR ''u'', CHR ''0'', CHR ''0'',
                           ''0123456789abcdef'' ! (n div 16), ''0123456789abcdef'' ! (n mod 16)]
      else [c])"

definition JSON_quote :: "string \<Rightarrow> string" where
  "JSON_quote s = [CHR 0x22] @ concat (map JSON_quote_char s) @ [CHR 0x22]"

fun omitted :: "jsval \<Rightarrow> bool" where
  "omitted Undefined = True"
| "omitted (NativeFunction n) = True"
| "omitted v = False"

fun JSON_stringify :: "jsval \<Rightarrow> string" where
  "JSON_stringify Undefined = ''undefined''"
| "JSON_stringify Null = ''null''"
| "JSON_stringify (Boolean b) = (if b then ''true'' else ''false'')"
| "JSON_stringify (Number n) = Number_toString n"
| "JSON_stringify (Str s) = JSON_quote s"
| "JSON_stringify (Array xs) =
     ''['' @ join '','' (map (\<lambda>x. if omitted x then ''null'' else JSON_stringify x) xs) @ '']''"
| "JSON_stringify (Object fs) =
     ''{'' @ join '','' (map (\<lambda>(k, v). JSON_quote k @ '':'' @ JSON_stringify v)
                          (filter (\<lambda>(k, v). \<not> omitted v) fs)) @ ''}''"
| "JSON_stringify (NativeFunction n) = ''undefined''"
| "JSON_stringify PrototypeObject = ''{}''"

record TasksConstruct =
  Tasks_currentDefinition :: resource
  Tasks_mainDefinition :: resource
  Tasks_preDeployDefinition :: resource
  Tasks_securityGroup :: resource

definition TasksConstruct ::
  "(string \<Rightarrow> string) \<Rightarrow> string list \<Rightarrow> string \<Rightarrow> resource \<Rightarrow> int \<Rightarrow> string \<Rightarrow> resource
     \<Rightarrow> resource \<Rightarrow> resource \<Rightarrow> resource \<Rightarrow> resource list \<Rightarrow> string \<Rightarrow> string \<Rightarrow> string
     \<Rightarrow> string \<Rightarrow> resource \<Rightarrow> TasksConstruct synth" where
  "TasksConstruct escapeTemplateForTerraform scope ident applicationLoadBalancerSecurityGroup
      containerListenPort containerName containersLogsGroup currentAccount currentRegion
      ecrRepository environmentVariables preDeployCommand resourceNamesPrefix tasksCpu
      tasksMemory vpc =
     (let this = scope @ [ident] in
      bind (new DataAwsIamPolicyDocument this ''fargate_tasks_assume_role_policy''
              [(''version'', Str ''2012-10-17''),
               (''statement'', Array [Object
                  [(''effect'', Str ''Allow''),
                   (''principals'', Array [Object
                      [(''type'', Str ''Service''),
                       (''identifiers'', Array [Str ''ecs-tasks.amazonaws.com''])]]),
                   (''actions'', Array [Str ''sts:AssumeRole''])]])])
        (\<lambda>fargateTasksAssumeRolePolicyDocument.
      bind (new IamRole this ''fargate_tasks_execution_role''
              [(''assumeRolePolicy'', Str (ref fargateTasksAssumeRolePolicyDocument ''json'')),
               (''name'', Str (resourceNamesPrefix @ ''_fargate_tasks_execution_role'')),
               (''forceDetachPolicies'', Boolean True)]) (\<lambda>fargateTasksExecutionRole.
      bind (new DataAwsIamPolicyDocument this ''fargate_tasks_execution_role_policy_document''
              [(''version'', Str ''2012-10-17''),
               (''statement'', Array
                 [Object
                   [(''effect'', Str ''Allow''),
                    (''actions'', Array [Str ''ecr:GetAuthorizationToken'']),
                    (''resources'', Array [Str ''*''])],
                  Object
                   [(''effect'', Str ''Allow''),
                    (''actions'', Array
                       [Str ''ecr:BatchCheckLayerAvailability'',
                        Str ''ecr:GetDownloadUrlForLayer'',
                        Str ''ecr:BatchGetImage'']),
                    (''resources'', Array [Str (ref ecrRepository ''arn'')])],
                  Object
                   [(''effect'', Str ''Allow''),
                    (''actions'', Array [Str ''logs:CreateLogStream'', Str ''logs:PutLogEvents'']),
                    (''resources'', Array
                       [Str (ref containersLogsGroup ''arn''),
                        Str (ref containersLogsGroup ''arn'' @ '':*'')])],
                  Object
                   [(''effect'', Str ''Allow''),
                    (''actions'', Array [Str ''ssm:GetParameters'']),
                    (''resources'', Array
                       [Str (''arn:aws:ssm:'' @ ref currentRegion ''name'' @ '':''
                             @ ref currentAccount ''account_id'' @ '':parameter/''
                             @ resourceNamesPrefix @ ''/fargate-tasks-env/*'')])]])])
        (\<lambda>fargateTasksExecutionRolePolicyDocument.
      bind (new IamRolePolicy this ''fargate_tasks_execution_role_policy''
              [(''name'', Str (resourceNamesPrefix @ ''_fargate_tasks_execution_role_policy'')),
               (''policy'', Str (ref fargateTasksExecutionRolePolicyDocument ''json'')),
               (''role'', Str (ref fargateTasksExecutionRole ''id''))]) (\<lambda>_.
      bind (new SecurityGroup this ''fargate_tasks_security_group''
              [(''description'',
                  Str ''Allow inbound access from the application load balancer only''),
               (''egress'', Array [Object
                  [(''fromPort'', Number 0),
                   (''toPort'', Number 0),
                   (''protocol'', Str ''-1''),
                   (''cidrBlocks'', Array [Str ''0.0.0.0/0''])]]),
               (''ingress'', Array [Object
                  [(''fromPort'', Number 0),
                   (''toPort'', Number 0),
                   (''protocol'', Str ''-1''),
                   (''securityGroups'', Array
                      [Str (ref applicationLoadBalancerSecurityGroup ''id'')])]]),
               (''name'', Str (resourceNamesPrefix @ ''_fargate_tasks_security_group'')),
               (''tags'', Object
                  [(''Name'', Str (resourceNamesPrefix @ ''_fargate_tasks_security_group''))]),
               (''vpcId'', Str (ref vpc ''id''))]) (\<lambda>created.
      bind (overrideNullValuesForSecurityGroup created) (\<lambda>securityGroup.
      (let environmentVariablesAsTaskSecrets =
             map (\<lambda>environmentVariable.
                    Object [(''name'', member (getProp environmentVariable ''tags'') ''name''),
                            (''valueFrom'', Str (ref environmentVariable ''arn''))])
                 environmentVariables in
      bind (new EcsTaskDefinition this ''main_fargate_tasks_definition''
              [(''containerDefinitions'', Str (JSON_stringify (Array [Object
                  [(''name'', Str containerName),
                   (''image'', Str (ref ecrRepository ''repository_url'')),
                   (''portMappings'', Array [Object
                      [(''protocol'', Str ''tcp''),
                       (''containerPort'', Number containerListenPort),
                       (''hostPort'', Number containerListenPort)]]),
                   (''logConfiguration'', Object
                      [(''logDriver'', Str ''awslogs''),
                       (''options'', Object
                          [(''awslogs-group'', Str (ToString (getProp containersLogsGroup ''name''))),
                           (''awslogs-region'', Str (ref currentRegion ''name'')),
                           (''awslogs-stream-prefix'', Str resourceNamesPrefix)])]),
                   (''secrets'', Array environmentVariablesAsTaskSecrets),
                   (''essential'', Boolean True)]]))),
               (''cpu'', Str tasksCpu),
               (''executionRoleArn'', Str (ref fargateTasksExecutionRole ''arn'')),
               (''family'', Str (resourceNamesPrefix @ ''_fargate_tasks'')),
               (''memory'', Str tasksMemory),
               (''networkMode'', Str ''awsvpc''),
               (''requiresCompatibilities'', Array [Str ''FARGATE'']),
               (''dependsOn'', Array
                  [Str (fqn fargateTasksExecutionRole), Str (fqn ecrRepository)])])
        (\<lambda>mainDefinition.
      bind (new EcsTaskDefinition this ''pre_deploy_fargate_tasks_definition''
              [(''containerDefinitions'', Str (JSON_stringify (Array [Object
                  [(''name'', Str containerName),
                   (''image'', Str (ref ecrRepository ''repository_url'' @ '':latest'')),
                   (''logConfiguration'', Object
                      [(''logDriver'', Str ''awslogs''),
                       (''options'', Object
                          [(''awslogs-group'', Str (ToString (getProp containersLogsGroup ''name''))),
                           (''awslogs-region'', Str (ref currentRegion ''name'')),
                           (''awslogs-stream-prefix'', Str resourceNamesPrefix)])]),
                   (''entryPoint'', Array [Str ''sh'', Str ''-c'']),
                   (''command'', Array [Str (escapeTemplateForTerraform preDeployCommand)]),
                   (''secrets'', Array environmentVariablesAsTaskSecrets),
                   (''essential'', Boolean True)]]))),
               (''cpu'', Str tasksCpu),
               (''executionRoleArn'', Str (ref fargateTasksExecutionRole ''arn'')),
               (''family'', Str (resourceNamesPrefix @ ''_fargate_pre_deploy_task'')),
               (''memory'', Str tasksMemory),
               (''networkMode'', Str ''awsvpc''),
               (''requiresCompatibilities'', Array [Str ''FARGATE'']),
               (''dependsOn'', Array
                  [Str (fqn fargateTasksExecutionRole), Str (fqn ecrRepository)])])
        (\<lambda>preDeployDefinition.
      bind (new DataAwsEcsTaskDefinition this ''current_main_fargate_tasks_definition''
              [(''taskDefinition'', getProp mainDefinition ''family''),
               (''dependsOn'', Array [Str (fqn mainDefinition)])]) (\<lambda>currentDefinition.
      return \<lparr>Tasks_currentDefinition = currentDefinition,
              Tasks_mainDefinition = mainDefinition,
              Tasks_preDeployDefinition = preDeployDefinition,
              Tasks_securityGroup = securityGroup\<rparr>)))))))))))"

definition ServiceConstruct ::
  "string list \<Rightarrow> string \<Rightarrow> resource \<Rightarrow> resource \<Rightarrow> int \<Rightarrow> string \<Rightarrow> resource \<Rightarrow> resource
     \<Rightarrow> int \<Rightarrow> resource list \<Rightarrow> string \<Rightarrow> resource \<Rightarrow> resource synth" where
  "ServiceConstruct scope ident applicationLoadBalancerTargetGroup cluster containerListenPort
      containerName currentTaskDefinition mainTaskDefinition minimumNumberOfRunningTasks
      privateSubnets resourceNamesPrefix tasksSecurityGroup =
     (let this = scope @ [ident] in
      if minimumNumberOfRunningTasks < 1
      then throw ''Your Fargate cluster must run at least one task''
      else
      new EcsService this ''fargate_service''
        [(''cluster'', Str (ref cluster ''id'')),
         (''name'', Str (resourceNamesPrefix @ ''_fargate_service'')),
         (''desiredCount'', Number minimumNumberOfRunningTasks),
         (''healthCheckGracePeriodSeconds'', Number 240),
         (''deploymentMaximumPercent'', Number 200),
         (''deploymentMinimumHealthyPercent'', Number 100),
         (''launchType'', Str ''FARGATE''),
         (''platformVersion'', Str ''1.4.0''),
         (''loadBalancer'', Array [Object
            [(''containerName'', Str containerName),
             (''containerPort'', Number containerListenPort),
             (''targetGroupArn'', Str (ref applicationLoadBalancerTargetGroup ''arn''))]]),
         (''networkConfiguration'', Array [Object
            [(''assignPublicIp'', Boolean False),
             (''securityGroups'', Array [Str (ref tasksSecurityGroup ''id'')]),
             (''subnets'', Array
                (map (\<lambda>privateSubnet. Str (ref privateSubnet ''id'')) privateSubnets))]]),
         (''taskDefinition'',
            Str (ToString (getProp mainTaskDefinition ''family'') @ '':${max(''
                 @ fqn mainTaskDefinition @ ''.revision, ''
                 @ fqn currentTaskDefinition @ ''.revision)}'')),
         (''lifecycle'', Object [(''ignoreChanges'', Array [Str ''desired_count''])]),
         (''dependsOn'', Array
            [Str (fqn applicationLoadBalancerTargetGroup), Str (fqn mainTaskDefinition)])])"

definition AutoScalingConstruct ::
  "string list \<Rightarrow> string \<Rightarrow> resource \<Rightarrow> int \<Rightarrow> int \<Rightarrow> int \<Rightarrow> int \<Rightarrow> string \<Rightarrow> resource
     \<Rightarrow> unit synth" where
  "AutoScalingConstruct scope ident cluster cpuLimitPercent maximumNumberOfRunningTasks
      memoryLimitPercent minimumNumberOfRunningTasks resourceNamesPrefix service =
     (let this = scope @ [ident] in
      if memoryLimitPercent < 1 \<or> memoryLimitPercent > 100
      then throw ''Memory limit must be comprised between 1 and 100''
      else if cpuLimitPercent < 1 \<or> cpuLimitPercent > 100
      then throw ''CPU limit must be comprised between 1 and 100''
      else if minimumNumberOfRunningTasks < 1 \<or> maximumNumberOfRunningTasks < 1
      then throw ''Your Fargate cluster must run at least one task''
      else
      bind (new AppautoscalingTarget this ''fargate_auto_scaling_target''
              [(''maxCapacity'', Number maximumNumberOfRunningTasks),
               (''minCapacity'', Number minimumNumberOfRunningTasks),
               (''resourceId'', Str (''service/'' @ ToString (getProp cluster ''name'') @ ''/''
                                     @ ToString (getProp service ''name''))),
               (''scalableDimension'', Str ''ecs:service:DesiredCount''),
               (''serviceNamespace'', Str ''ecs''),
               (''dependsOn'', Array [Str (fqn cluster), Str (fqn service)])])
        (\<lambda>fargateAutoScalingTarget.
      bind (new AppautoscalingPolicy this ''fargate_auto_scaling_cpu_policy''
              [(''name'', Str (resourceNamesPrefix @ ''_fargate_auto_scaling_cpu_policy'')),
               (''policyType'', Str ''TargetTrackingScaling''),
               (''resourceId'', getProp fargateAutoScalingTarget ''resourceId''),
               (''scalableDimension'', getProp fargateAutoScalingTarget ''scalableDimension''),
               (''serviceNamespace'', getProp fargateAutoScalingTarget ''serviceNamespace''),
               (''targetTrackingScalingPolicyConfiguration'', Array [Object
                  [(''predefinedMetricSpecification'', Array [Object
                      [(''predefinedMetricType'', Str ''ECSServiceAverageCPUUtilization'')]]),
                   (''scaleInCooldown'', Number 300),
                   (''scaleOutCooldown'', Number 300),
                   (''targetValue'', Number cpuLimitPercent)]]),
               (''dependsOn'', Array [Str (fqn fargateAutoScalingTarget)])]) (\<lambda>_.
      bind (new AppautoscalingPolicy this ''fargate_auto_scaling_memory_policy''
              [(''name'', Str (resourceNamesPrefix @ ''_fargate_auto_scaling_memory_policy'')),
               (''policyType'', Str ''TargetTrackingScaling''),
               (''resourceId'', getProp fargateAutoScalingTarget ''resourceId''),
               (''scalableDimension'', getProp fargateAutoScalingTarget ''scalableDimension''),
               (''serviceNamespace'', getProp fargateAutoScalingTarget ''serviceNamespace''),
               (''targetTrackingScalingPolicyConfiguration'', Array [Object
                  [(''predefinedMetricSpecification'', Array [Object
                      [(''predefinedMetricType'', Str ''ECSServiceAverageMemoryUtilization'')]]),
                   (''scaleInCooldown'', Number 300),
                   (''scaleOutCooldown'', Number 300),
                   (''targetValue'', Number memoryLimitPercent)]]),
               (''dependsOn'', Array [Str (fqn fargateAutoScalingTarget)])]) (\<lambda>_.
      return ()))))"

record IComputingConstructProps =
  applicationLoadBalancerSecurityGroup :: resource
  applicationLoadBalancerTargetGroup :: resource
  autoScalingCpuLimitPercent :: int
  autoScalingMemoryLimitPercent :: int
  buildsEnvironmentVariables :: EnvironmentVariables
  containerListenPort :: int
  containerName :: string
  currentAccount :: resource
  currentRegion :: resource
  dockerImageName :: string
  enableAutoScaling :: bool
  environmentVariables :: EnvironmentVariables
  fargateTasksCpu :: string
  fargateTasksMemory :: string
  maximumNumberOfRunningFargateTasks :: int
  minimumNumberOfRunningFargateTasks :: int
  preDeployCommand :: string
  privateSubnets :: "resource list"
  resourceNamesPrefix :: string
  vpc :: resource

record ComputingConstruct =
  Computing_buildsEnvironmentVariables :: "resource list"
  Computing_containersLogsGroup :: resource
  Computing_ecrRepository :: resource
  Computing_fargateCluster :: resource
  Computing_fargateService :: resource
  Computing_fargateTasksSecurityGroup :: resource
  Computing_predeployFargateTaskDefinition :: resource

definition ComputingConstruct ::
  "(string \<Rightarrow> string) \<Rightarrow> string list \<Rightarrow> string \<Rightarrow> IComputingConstructProps
     \<Rightarrow> ComputingConstruct synth" where
  "ComputingConstruct escapeTemplateForTerraform scope ident props =
     (let this = scope @ [ident] in
      bind (new CloudwatchLogGroup this ''containers_logs_group''
              [(''name'', Str (resourceNamesPrefix props @ ''_fargate_containers''))])
        (\<lambda>containersLogsGroup.
      bind (EnvironmentVariablesConstruct escapeTemplateForTerraform this ''environment_variables''
              (buildsEnvironmentVariables props) (environmentVariables props)
              (resourceNamesPrefix props)) (\<lambda>environmentVariables.
      bind (ClusterConstruct this ''cluster'' (resourceNamesPrefix props)) (\<lambda>cluster.
      bind (RepositoryConstruct this ''repository'' (dockerImageName props)
              (resourceNamesPrefix props)) (\<lambda>repository.
      bind (TasksConstruct escapeTemplateForTerraform this ''task''
              (applicationLoadBalancerSecurityGroup props) (containerListenPort props)
              (containerName props) containersLogsGroup (currentAccount props)
              (currentRegion props) repository
              (EnvironmentVariables_applicationEnvironmentVariables environmentVariables)
              (preDeployCommand props) (resourceNamesPrefix props) (fargateTasksCpu props)
              (fargateTasksMemory props) (vpc props)) (\<lambda>tasks.
      bind (ServiceConstruct this ''service'' (applicationLoadBalancerTargetGroup props) cluster
              (containerListenPort props) (containerName props) (Tasks_currentDefinition tasks)
              (Tasks_mainDefinition tasks) (minimumNumberOfRunningFargateTasks props)
              (privateSubnets props) (resourceNamesPrefix props) (Tasks_securityGroup tasks))
        (\<lambda>service.
      bind (if enableAutoScaling props
            then AutoScalingConstruct this ''auto_scaling'' cluster
                   (autoScalingCpuLimitPercent props) (maximumNumberOfRunningFargateTasks props)
                   (autoScalingMemoryLimitPercent props)
                   (minimumNumberOfRunningFargateTasks props) (resourceNamesPrefix props) service
            else return ()) (\<lambda>_.
      return \<lparr>Computing_buildsEnvironmentVariables =
                EnvironmentVariables_buildsEnvironmentVariables environmentVariables,
              Computing_containersLogsGroup = containersLogsGroup,
              Computing_ecrRepository = repository,
              Computing_fargateCluster = cluster,
              Computing_fargateService = service,
              Computing_fargateTasksSecurityGroup = Tasks_securityGroup tasks,
              Computing_predeployFargateTaskDefinition = Tasks_preDeployDefinition tasks\<rparr>))))))))"

section \<open>The entry point's derivation of the secret names\<close>

text \<open>
  \<open>process.env\<close> is modelled as the list of its entries, each name once. The entry point
  first checks every name against \<open>/^[a-z0-9_-]+$/i\<close>, then collects the entries whose
  name starts with \<open>APPLICATION_\<close> (and, separately, \<open>BUILD_\<close>) into a fresh plain object
  under the name without its prefix.
\<close>

definition matches_name_format :: "string \<Rightarrow> bool" where
  "matches_name_format s \<longleftrightarrow>
     s \<noteq> [] \<and>
     (\<forall>c \<in> set s. let n = (of_char c :: nat) in
        (97 \<le> n \<and> n \<le> 122) \<or> (65 \<le> n \<and> n \<le> 90) \<or> (48 \<le> n \<and> n \<le> 57)
        \<or> n = 95 \<or> n = 45)"

definition main_checkNames :: "(string \<times> string) list \<Rightarrow> unit synth" where
  "main_checkNames env =
     forEach (\<lambda>environmentVariableName.
        if \<not> matches_name_format environmentVariableName
        then throw ''Environment variable names must match /^[a-z0-9_-]+$/i format''
        else return ())
       (map fst env)"

definition startsWith :: "string \<Rightarrow> string \<Rightarrow> bool" where
  "startsWith s p \<longleftrightarrow> take (length p) s = p"

text \<open>\<open>s.replace(/^P/, "")\<close> for a literal prefix \<open>P\<close>.\<close>

definition removePrefix :: "string \<Rightarrow> string \<Rightarrow> string" where
  "removePrefix p s = (if startsWith s p then drop (length p) s else s)"

text \<open>
  \<open>acc[k] = v\<close> on a plain object, for a string \<open>v\<close>. The assignment creates or updates
  the own property \<open>k\<close>, except for the name \<open>__proto__\<close>: that name is an accessor
  inherited from \<open>Object.prototype\<close>, whose setter ignores a value that is neither an
  object nor null and leaves the object without such an own property.
\<close>

definition js_set :: "(string \<times> jsval) list \<Rightarrow> string \<Rightarrow> string \<Rightarrow> (string \<times> jsval) list" where
  "js_set acc k v = (if k = ''__proto__'' then acc else AList.update k (Str v) acc)"

definition process_env_get :: "(string \<times> string) list \<Rightarrow> string \<Rightarrow> string" where
  "process_env_get env k = (case map_of env k of Some v \<Rightarrow> v | None \<Rightarrow> ''undefined'')"

definition main_environmentVariables :: "(string \<times> string) list \<Rightarrow> EnvironmentVariables" where
  "main_environmentVariables env =
     foldl (\<lambda>acc environmentVariableKey.
              js_set acc (removePrefix ''APPLICATION_'' environmentVariableKey)
                (process_env_get env environmentVariableKey))
       []
       (filter (\<lambda>environmentVariableKey. startsWith environmentVariableKey ''APPLICATION_'')
          (map fst env))"

definition main_buildsEnvironmentVariables :: "(string \<times> string) list \<Rightarrow> EnvironmentVariables" where
  "main_buildsEnvironmentVariables env =
     foldl (\<lambda>acc environmentVariableKey.
              js_set acc (removePrefix ''BUILD_'' environmentVariableKey)
                (process_env_get env environmentVariableKey))
       []
       (filter (\<lambda>environmentVariableKey. startsWith environmentVariableKey ''BUILD_'')
          (map fst env))"

text \<open>
  The secret-parameter descriptors that the entry point's input names lead to: the names
  are checked, partitioned, and handed to the environment variables construct.
\<close>

definition secretParameters ::
  "(string \<Rightarrow> string) \<Rightarrow> string list \<Rightarrow> string \<Rightarrow> string \<Rightarrow> (string \<times> string) list
     \<Rightarrow> EnvironmentVariablesConstruct synth" where
  "secretParameters escapeTemplateForTerraform scope ident pre env =
     bind (main_checkNames env) (\<lambda>_.
     EnvironmentVariablesConstruct escapeTemplateForTerraform scope ident
       (main_buildsEnvironmentVariables env) (main_environmentVariables env) pre)"

text \<open>The name a secret-parameter descriptor carries in its tags.\<close>

definition secretName :: "resource \<Rightarrow> string" where
  "secretName r = ToString (member (getProp r ''tags'') ''name'')"

section \<open>Example inputs\<close>

text \<open>Concrete inputs at which the results below are instantiated.\<close>

definition example_resource :: "kind \<Rightarrow> string \<Rightarrow> resource" where
  "example_resource k ident =
     \<lparr>kind = k, path = [''stack'', ident],
      fqn = terraformResourceType k @ ''.'' @ friendlyUniqueId [''stack'', ident],
      config = [], rawOverrides = []\<rparr>"

section \<open>Reading the outcome of a composition\<close>

text \<open>
  The descriptors of one kind in a tree, the descriptors a step added to the tree it
  started from, and the element of a list value at an index.
\<close>

definition emitted :: "kind \<Rightarrow> tree \<Rightarrow> resource list" where
  "emitted k t = filter (\<lambda>r. kind r = k) t"

definition added :: "tree \<Rightarrow> 'a outcome \<Rightarrow> tree" where
  "added t out = drop (length t) (tree_of out)"

fun at_index :: "jsval \<Rightarrow> nat \<Rightarrow> jsval" where
  "at_index (Array xs) i = (if i < length xs then xs ! i else Undefined)"
| "at_index v i = Undefined"

text \<open>
  The identifiers of the first principal of the first statement of a policy document: in
  the access-log bucket policy, the account that delivers the load balancer's logs.
\<close>

definition firstPrincipalIdentifiers :: "resource \<Rightarrow> jsval" where
  "firstPrincipalIdentifiers document =
     member (at_index (member (at_index (getProp document ''statement'') 0) ''principals'') 0)
       ''identifiers''"

section \<open>The null-override invariant\<close>

text \<open>
  \<open>nullOverride x p\<close>: the descriptor \<open>x\<close> carries an explicit null override for the
  configuration path \<open>p\<close>. A security group rule is \<open>nulled\<close> when every optional field of
  the known set that reads as a falsy value, through \<open>readProperty\<close>, has such an override; a
  security group and a route table are nulled when this holds for every field of every
  element of their rule lists.
\<close>

definition nullOverride :: "resource \<Rightarrow> string \<Rightarrow> bool" where
  "nullOverride x p \<longleftrightarrow> map_of (rawOverrides x) p = Some Null"

definition SecurityGroupRule_nulled :: "(resource \<Rightarrow> string \<Rightarrow> jsval) \<Rightarrow> resource \<Rightarrow> bool" where
  "SecurityGroupRule_nulled readProperty x \<longleftrightarrow>
     (\<forall>(p, k) \<in> set SecurityGroupRule_propertiesToOverride.
        \<not> truthy (readProperty x p) \<longrightarrow> nullOverride x k)"

definition elements_nulled :: "string \<Rightarrow> (string \<times> string) list \<Rightarrow> resource \<Rightarrow> bool" where
  "elements_nulled field properties x \<longleftrightarrow>
     (\<forall>(e, i) \<in> set (indexed (elements (getProp x field))).
        \<forall>(p, k) \<in> set properties.
          \<not> truthy (member e p) \<longrightarrow> nullOverride x (field @ ''.'' @ digits i @ ''.'' @ k))"

definition SecurityGroup_nulled :: "resource \<Rightarrow> bool" where
  "SecurityGroup_nulled x \<longleftrightarrow>
     elements_nulled ''ingress'' SecurityGroup_propertiesToOverride x
     \<and> elements_nulled ''egress'' SecurityGroup_propertiesToOverride x"

definition RouteTable_nulled :: "resource \<Rightarrow> bool" where
  "RouteTable_nulled x \<longleftrightarrow> elements_nulled ''route'' RouteTable_propertiesToOverride x"

definition nulled :: "(resource \<Rightarrow> string \<Rightarrow> jsval) \<Rightarrow> resource \<Rightarrow> bool" where
  "nulled readProperty x \<longleftrightarrow>
     (kind x = SecurityGroupRule \<longrightarrow> SecurityGroupRule_nulled readProperty x)
     \<and> (kind x = SecurityGroup \<longrightarrow> SecurityGroup_nulled x)
     \<and> (kind x = RouteTable \<longrightarrow> RouteTable_nulled x)"



text \<open>The tree after null overrides for the paths \<open>ps\<close> were added to the descriptor \<open>r\<close>.\<close>

definition nullify :: "resource \<Rightarrow> string list \<Rightarrow> tree \<Rightarrow> tree" where
  "nullify r ps t = fold (\<lambda>p. overrideIn r p Null) ps t"

section \<open>Subnets of a tree\<close>

text \<open>
  A public subnet is one that maps a public address on launch; every other subnet is
  private. \<open>strip\<close> forgets the overrides of a descriptor, leaving what it was created with.
\<close>

definition publicSubnetDescriptors :: "tree \<Rightarrow> resource list" where
  "publicSubnetDescriptors t =
     filter (\<lambda>r. kind r = Subnet \<and> getProp r ''mapPublicIpOnLaunch'' = Boolean True) t"

definition privateSubnetDescriptors :: "tree \<Rightarrow> resource list" where
  "privateSubnetDescriptors t =
     filter (\<lambda>r. kind r = Subnet \<and> getProp r ''mapPublicIpOnLaunch'' \<noteq> Boolean True) t"

definition strip :: "resource \<Rightarrow> resource" where
  "strip r = r\<lparr>rawOverrides := []\<rparr>"

section \<open>The effect of a step\<close>

text \<open>
  \<open>effect m \<Phi>\<close>: from every tree, the step \<open>m\<close> leaves the descriptors it found as they
  were created, appends the descriptors \<open>S\<close> (read without their overrides), and \<open>\<Phi>\<close>
  holds of its result (\<open>None\<close> when it throws) and of \<open>S\<close>.
\<close>

definition effect :: "'a synth \<Rightarrow> ('a option \<Rightarrow> resource list \<Rightarrow> bool) \<Rightarrow> bool" where
  "effect m \<Phi> \<longleftrightarrow>
     (\<forall>t. \<exists>S. map strip (tree_of (m t)) = map strip t @ S \<and> \<Phi> (result_of (m t)) S)"

text \<open>
  \<open>counts S a b c d\<close>: among the descriptors \<open>S\<close> there are \<open>a\<close> private subnets, \<open>b\<close> public
  subnets, \<open>c\<close> elastic addresses and \<open>d\<close> NAT gateways.
\<close>

definition counts :: "resource list \<Rightarrow> nat \<Rightarrow> nat \<Rightarrow> nat \<Rightarrow> nat \<Rightarrow> bool" where
  "counts S a b c d \<longleftrightarrow>
     length (privateSubnetDescriptors S) = a \<and> length (publicSubnetDescriptors S) = b
     \<and> length (emitted Eip S) = c \<and> length (emitted NatGateway S) = d"

section \<open>Auto-scaling descriptors of a tree\<close>

text \<open>
  Of a target-tracking policy: the predefined metric, the scale-in cooldown, the scale-out
  cooldown and the target value. Of a tree: the capacities of its scaling targets and the
  target tracking of its scaling policies, in creation order.
\<close>

definition targetTracking :: "resource \<Rightarrow> jsval \<times> jsval \<times> jsval \<times> jsval" where
  "targetTracking p =
     (let c = at_index (getProp p ''targetTrackingScalingPolicyConfiguration'') 0 in
      (member (at_index (member c ''predefinedMetricSpecification'') 0) ''predefinedMetricType'',
       member c ''scaleInCooldown'', member c ''scaleOutCooldown'', member c ''targetValue''))"

definition scalingTargets :: "tree \<Rightarrow> (jsval \<times> jsval) list" where
  "scalingTargets t =
     map (\<lambda>d. (getProp d ''minCapacity'', getProp d ''maxCapacity''))
       (emitted AppautoscalingTarget t)"

definition scalingPolicies :: "tree \<Rightarrow> (jsval \<times> jsval \<times> jsval \<times> jsval) list" where
  "scalingPolicies t = map targetTracking (emitted AppautoscalingPolicy t)"

definition noAutoScaling :: "tree \<Rightarrow> bool" where
  "noAutoScaling t \<longleftrightarrow>
     emitted AppautoscalingTarget t = [] \<and> emitted AppautoscalingPolicy t = []"

text \<open>The limits and task counts that the auto-scaling unit accepts.\<close>

definition acceptedByAutoScaling :: "int \<Rightarrow> int \<Rightarrow> int \<Rightarrow> int \<Rightarrow> bool" where
  "acceptedByAutoScaling cpu mem mn mx \<longleftrightarrow>
     1 \<le> mem \<and> mem \<le> 100 \<and> 1 \<le> cpu \<and> cpu \<le> 100 \<and> 1 \<le> mn \<and> 1 \<le> mx"

definition example_props :: IComputingConstructProps where
  "example_props =
     \<lparr>applicationLoadBalancerSecurityGroup = example_resource SecurityGroup ''lb_security_group'',
      applicationLoadBalancerTargetGroup = example_resource LbTargetGroup ''lb_target_group'',
      autoScalingCpuLimitPercent = 75,
      autoScalingMemoryLimitPercent = 75,
      buildsEnvironmentVariables = [(''TOKEN'', Str ''t'')],
      containerListenPort = 8080,
      containerName = ''main'',
      currentAccount = example_resource DataAwsCallerIdentity ''current_account'',
      currentRegion = example_resource DataAwsRegion ''current_region'',
      dockerImageName = ''main'',
      enableAutoScaling = True,
      environmentVariables = [(''SECRET'', Str ''s'')],
      fargateTasksCpu = ''256'',
      fargateTasksMemory = ''512'',
      maximumNumberOfRunningFargateTasks = 2,
      minimumNumberOfRunningFargateTasks = 1,
      preDeployCommand = ''echo No pre-deploy command'',
      privateSubnets = [example_resource Subnet ''private_subnet_1''],
      resourceNamesPrefix = ''app'',
      vpc = example_resource Vpc ''vpc''\<rparr>"

section \<open>The null-override invariant of a tree\<close>

text \<open>
  A tree is nulled when every security group rule, security group and route table in it is;
  a step keeps the invariant when it leads from a nulled tree to a nulled tree, whether it
  returns or throws.
\<close>

definition nulled_tree :: "(resource \<Rightarrow> string \<Rightarrow> jsval) \<Rightarrow> tree \<Rightarrow> bool" where
  "nulled_tree readProperty t \<longleftrightarrow> list_all (nulled readProperty) t"


section \<open>Basic facts about the composition pass\<close>

lemma bind_Returned: "m t = Returned x t' \<Longrightarrow> bind m f t = f x t'"
  by (simp add: bind_def)

lemma bind_Threw: "m t = Threw e t' \<Longrightarrow> bind m f t = Threw e t'"
  by (simp add: bind_def)

lemma new_Returned:
  "new k this ident cfg t =
     Returned (descriptor k this ident cfg) (t @ [descriptor k this ident cfg])"
  by (simp add: new_def Let_def)

text \<open>
  The defining equations of the loops are recursive without a pattern; they are unfolded
  by hand, one iteration at a time.
\<close>

declare digits.simps [simp del]
declare SubnetsConstruct_private.simps [simp del]
declare SubnetsConstruct_public.simps [simp del]
declare ElasticIpsConstruct_loop.simps [simp del]
declare NatGatewaysConstruct_loop.simps [simp del]

text \<open>
  Evaluation of a constructor body: the rules below run a sequence of steps on a tree.
  The configuration of a created descriptor is left untouched until a field of it is read.
\<close>

lemma descriptor_sel [simp]:
  "kind (descriptor k this ident cfg) = k"
  "path (descriptor k this ident cfg) = this @ [ident]"
  "fqn (descriptor k this ident cfg) =
     terraformResourceType k @ ''.'' @ friendlyUniqueId (this @ [ident])"
  "config (descriptor k this ident cfg) = cfg"
  "rawOverrides (descriptor k this ident cfg) = []"
  by (simp_all add: descriptor_def)

lemma descriptor_cong [cong]: "descriptor k this ident cfg = descriptor k this ident cfg"
  by (rule refl)

lemma new_cong [cong]: "new k this ident cfg = new k this ident cfg"
  by (rule refl)

lemma bind_Returned_fun [simp]: "bind (Returned x) f = f x"
  by (rule ext) (simp add: bind_def)

lemma bind_Threw_fun [simp]: "bind (Threw e) f = Threw e"
  by (rule ext) (simp add: bind_def)

lemma bind_return [simp]: "bind (return x) f = f x"
  by (rule ext) (simp add: bind_def return_def)

lemma bind_throw [simp]: "bind (throw msg) f = throw msg"
  by (rule ext) (simp add: bind_def throw_def)

lemma bind_assoc [simp]: "bind (bind m f) g = bind m (\<lambda>x. bind (f x) g)"
  by (rule ext) (simp add: bind_def split: outcome.splits)

lemma bind_new [simp]:
  "bind (new k this ident cfg) f t =
     f (descriptor k this ident cfg) (t @ [descriptor k this ident cfg])"
  by (simp add: bind_def new_Returned)

lemma new_apply [simp]:
  "new k this ident cfg t =
     Returned (descriptor k this ident cfg) (t @ [descriptor k this ident cfg])"
  by (rule new_Returned)

lemma bind_addOverride [simp]:
  "bind (addOverride r p v) f t = f () (overrideIn r p v t)"
  by (simp add: bind_def addOverride_def)

lemma addOverride_apply [simp]: "addOverride r p v t = Returned () (overrideIn r p v t)"
  by (simp add: addOverride_def)

lemma bind_if [simp]:
  "bind (if c then a else b) f = (if c then bind a f else bind b f)"
  by simp

lemma return_apply [simp]: "return x t = Returned x t"
  by (simp add: return_def)

lemma throw_apply [simp]: "throw msg t = Threw (Error msg) t"
  by (simp add: throw_def)

lemma getProp_descriptor [simp]: "getProp (descriptor k this ident cfg) q = js_get cfg q"
  by (simp add: getProp_def)

lemma getProp_rawOverrides_update [simp]: "getProp (x\<lparr>rawOverrides := ov\<rparr>) q = getProp x q"
  by (simp add: getProp_def)

text \<open>An override changes neither the number, the kinds nor the configurations.\<close>

lemma length_overrideIn [simp]: "length (overrideIn r p v t) = length t"
  by (simp add: overrideIn_def)

lemma drop_overrideIn [simp]: "drop n (overrideIn r p v t) = overrideIn r p v (drop n t)"
  by (simp add: overrideIn_def drop_map)

lemma overrideIn_Nil [simp]: "overrideIn r p v [] = []"
  by (simp add: overrideIn_def)

lemma emitted_overrideIn [simp]:
  "emitted k (overrideIn r p v t) = overrideIn r p v (emitted k t)"
  by (induction t) (simp_all add: emitted_def overrideIn_def)

lemma emitted_append [simp]: "emitted k (t @ u) = emitted k t @ emitted k u"
  by (simp add: emitted_def)

lemma emitted_Nil [simp]: "emitted k [] = []"
  by (simp add: emitted_def)

lemma emitted_Cons [simp]:
  "emitted k (x # u) = (if kind x = k then x # emitted k u else emitted k u)"
  by (simp add: emitted_def)

lemma map_overrideIn_ignoring:
  "(\<And>x ov. f (x\<lparr>rawOverrides := ov\<rparr>) = f x) \<Longrightarrow> map f (overrideIn r p v t) = map f t"
  by (induction t) (simp_all add: overrideIn_def)

lemma map_kind_overrideIn [simp]: "map kind (overrideIn r p v t) = map kind t"
  by (rule map_overrideIn_ignoring) simp

lemma added_Returned [simp]: "added t (Returned x t') = drop (length t) t'"
  by (simp add: added_def)

lemma added_Threw [simp]: "added t (Threw e t') = drop (length t) t'"
  by (simp add: added_def)
section \<open>The certificate unit\<close>

text \<open>
  Claim C8. For an empty list of domain names the certificate unit throws, and it throws
  before it creates the certificate descriptor: the tree at the throw is the tree the unit
  was entered with.
\<close>

theorem SslConstruct_empty_domainNames_throws:
  "SslConstruct scope ident [] pre t =
     Threw (Error ''You must specify at least one domain name'') t"
  by (simp add: SslConstruct_def throw_def)

section \<open>The service unit\<close>

text \<open>
  Claim C6. The service descriptor's task-definition field is not a value computed during
  composition: it is the text of the main task definition's family, a colon, and the
  provisioning tool's interpolation \<open>${max(A.revision, B.revision)}\<close>, where \<open>A\<close> is the main
  task definition and \<open>B\<close> the currently registered one.
\<close>

theorem ServiceConstruct_taskDefinition:
  assumes "1 \<le> m"
  shows "\<exists>r. ServiceConstruct scope ident tg cl port cname cur main m subs pre sg t
               = Returned r (t @ [r])
     \<and> kind r = EcsService
     \<and> getProp r ''taskDefinition'' =
         Str (ToString (getProp main ''family'') @ '':${max('' @ fqn main @ ''.revision, ''
              @ fqn cur @ ''.revision)}'')"
  using assms
  by (simp add: ServiceConstruct_def new_Returned descriptor_def getProp_def js_get_def Let_def)

theorem ServiceConstruct_taskDefinition_witness:
  "(1::int) \<le> 1 \<and>
   (\<exists>r. ServiceConstruct [''stack''] ''service'' (example_resource LbTargetGroup ''tg'')
           (example_resource EcsCluster ''cluster'') 80 ''main''
           (example_resource DataAwsEcsTaskDefinition ''current'')
           ((example_resource EcsTaskDefinition ''main'')\<lparr>config := [(''family'', Str ''app_tasks'')]\<rparr>)
           1 [] ''app'' (example_resource SecurityGroup ''sg'') []
         = Returned r [r]
     \<and> getProp r ''taskDefinition'' =
         Str ''app_tasks:${max(aws_ecs_task_definition.stack_main.revision, data.aws_ecs_task_definition.stack_current.revision)}'')"
  using ServiceConstruct_taskDefinition [of 1 "[''stack'']" "''service''"
      "example_resource LbTargetGroup ''tg''" "example_resource EcsCluster ''cluster''" 80
      "''main''" "example_resource DataAwsEcsTaskDefinition ''current''"
      "(example_resource EcsTaskDefinition ''main'')\<lparr>config := [(''family'', Str ''app_tasks'')]\<rparr>"
      "[]" "''app''" "example_resource SecurityGroup ''sg''" "[]"]
  by (auto simp add: example_resource_def descriptor_def getProp_def js_get_def friendlyUniqueId_def)
section \<open>The null-override helpers\<close>

lemma nullify_Nil [simp]: "nullify r [] t = t"
  by (simp add: nullify_def)

lemma nullify_Cons: "nullify r (p # ps) t = nullify r ps (overrideIn r p Null t)"
  by (simp add: nullify_def)

lemma nullify_append: "nullify r (ps @ qs) t = nullify r qs (nullify r ps t)"
  by (simp add: nullify_def)

lemma nullify_map:
  "nullify r ps t =
     map (\<lambda>x. if path x = path r
               then x\<lparr>rawOverrides := fold (\<lambda>p. AList.update p Null) ps (rawOverrides x)\<rparr>
               else x) t"
proof (induction ps arbitrary: t)
  case Nil
  show ?case by (simp add: map_idI)
next
  case (Cons p ps)
  show ?case
    by (simp add: nullify_Cons Cons.IH overrideIn_def o_def cong: if_cong)
qed





lemma nullify_keeps:
  "map kind (nullify r ps t) = map kind t"
  "map path (nullify r ps t) = map path t"
  "map config (nullify r ps t) = map config t"
  "length (nullify r ps t) = length t"
  by (simp_all add: nullify_map o_def cong: if_cong)

lemma forEach_nullify:
  assumes "\<And>a t. f a t = Returned () (nullify r (ps a) t)"
  shows "forEach f xs t = Returned () (nullify r (concat (map ps xs)) t)"
proof (induction xs arbitrary: t)
  case Nil
  show ?case by simp
next
  case (Cons a xs)
  show ?case
    by (simp add: bind_Returned [OF assms] Cons.IH nullify_append)
qed

lemma override_if_nullify:
  "(if c then addOverride r p Null else return ()) t
     = Returned () (nullify r (if c then [p] else []) t)"
  by (simp add: nullify_Cons)

text \<open>The paths for which each helper adds a null override.\<close>

lemma overrideNullValuesForSecurityGroupRule_nullify:
  "overrideNullValuesForSecurityGroupRule readProperty r t =
     Returned r (nullify r
       (concat (map (\<lambda>pk. if \<not> truthy (readProperty r (fst pk)) then [snd pk] else [])
                  SecurityGroupRule_propertiesToOverride)) t)"
  unfolding overrideNullValuesForSecurityGroupRule_def
  by (simp add: bind_def forEach_nullify [OF override_if_nullify])

text \<open>Null overrides change neither the number, the kinds nor the configurations.\<close>

lemma length_nullify [simp]: "length (nullify r ps t) = length t"
  by (simp add: nullify_map)

lemma drop_nullify [simp]: "drop n (nullify r ps t) = nullify r ps (drop n t)"
  by (simp add: nullify_map drop_map)

lemma nullify_Nil_tree [simp]: "nullify r ps [] = []"
  by (simp add: nullify_map)

lemma emitted_nullify [simp]: "emitted k (nullify r ps t) = nullify r ps (emitted k t)"
  by (induction t) (simp_all add: emitted_def nullify_map)

lemma map_nullify_ignoring:
  "(\<And>x ov. f (x\<lparr>rawOverrides := ov\<rparr>) = f x) \<Longrightarrow> map f (nullify r ps t) = map f t"
  by (induction t) (simp_all add: nullify_map)

lemma bind_overrideNullValuesForSecurityGroupRule:
  "bind (overrideNullValuesForSecurityGroupRule readProperty r) f t =
     f r (nullify r
       (concat (map (\<lambda>pk. if \<not> truthy (readProperty r (fst pk)) then [snd pk] else [])
                  SecurityGroupRule_propertiesToOverride)) t)"
  by (rule bind_Returned) (rule overrideNullValuesForSecurityGroupRule_nullify)

lemma elements_forEach_nullify:
  "forEach (\<lambda>(e, i).
      forEach (\<lambda>pk. if \<not> truthy (member e (fst pk))
                     then addOverride r (field @ digits i @ ''.'' @ snd pk) Null
                     else return ()) properties) es t
   = Returned ()
       (nullify r
          (concat (map (\<lambda>(e, i).
             concat (map (\<lambda>pk. if \<not> truthy (member e (fst pk))
                                then [field @ digits i @ ''.'' @ snd pk] else []) properties))
             es)) t)"
  by (rule forEach_nullify) (simp add: split_def forEach_nullify [OF override_if_nullify])


lemma overrideNullValuesForSecurityGroup_nullify:
  "overrideNullValuesForSecurityGroup sg t =
     Returned sg (nullify sg
       (concat (map (\<lambda>(e, i).
           concat (map (\<lambda>pk. if \<not> truthy (member e (fst pk))
                              then [''ingress.'' @ digits i @ ''.'' @ snd pk] else [])
                     SecurityGroup_propertiesToOverride))
           (indexed (elements (getProp sg ''ingress''))))
        @ concat (map (\<lambda>(e, i).
           concat (map (\<lambda>pk. if \<not> truthy (member e (fst pk))
                              then [''egress.'' @ digits i @ ''.'' @ snd pk] else [])
                     SecurityGroup_propertiesToOverride))
           (indexed (elements (getProp sg ''egress''))))) t)"
  unfolding overrideNullValuesForSecurityGroup_def
  by (simp add: bind_Returned [OF elements_forEach_nullify] nullify_append)

lemma overrideNullValuesForRouteTable_nullify:
  "overrideNullValuesForRouteTable rt t =
     Returned rt (nullify rt
       (concat (map (\<lambda>(e, i).
           concat (map (\<lambda>pk. if \<not> truthy (member e (fst pk))
                              then [''route.'' @ digits i @ ''.'' @ snd pk] else [])
                     RouteTable_propertiesToOverride))
           (indexed (elements (getProp rt ''route''))))) t)"
  unfolding overrideNullValuesForRouteTable_def
  by (simp add: bind_Returned [OF elements_forEach_nullify])





section \<open>The load balancer unit\<close>

lemmas ApplicationLoadBalancerConstruct_eval =
  ApplicationLoadBalancerConstruct_def Let_def bind_overrideNullValuesForSecurityGroupRule
  js_get_def Object_prototype_def map_nullify_ignoring

text \<open>
  Claim C9. The load balancer unit never throws and creates exactly two listeners, in this
  order: one on port 443 that forwards to the target group, and one on port 80 whose
  default action is a redirect to port 443 with status \<open>HTTP_301\<close> when the HTTPS flag is
  set and a forward to the target group otherwise. Both are attached to the load balancer.
\<close>

theorem ApplicationLoadBalancerConstruct_listeners:
  "(case ApplicationLoadBalancerConstruct readProperty scope ident cert acct region https pubs pre v t of
      Threw e t' \<Rightarrow> False
    | Returned res t' \<Rightarrow>
        map (\<lambda>l. (getProp l ''port'', getProp l ''defaultAction'', getProp l ''loadBalancerArn''))
          (emitted LbListener (added t (Returned res t')))
        = [(Number 443,
            Array [Object
              [(''targetGroupArn'', Str (ref (ApplicationLoadBalancer_targetGroup res) ''arn'')),
               (''type'', Str ''forward'')]],
            Str (ref (ApplicationLoadBalancer_self res) ''arn'')),
           (Number 80,
            Array [if https
              then Object
                [(''type'', Str ''redirect''),
                 (''redirect'', Array [Object
                    [(''port'', Str ''443''),
                     (''protocol'', Str ''HTTPS''),
                     (''statusCode'', Str ''HTTP_301'')]])]
              else Object
                [(''targetGroupArn'', Str (ref (ApplicationLoadBalancer_targetGroup res) ''arn'')),
                 (''type'', Str ''forward'')]],
            Str (ref (ApplicationLoadBalancer_self res) ''arn''))])"
  by (simp add: ApplicationLoadBalancerConstruct_eval map_overrideIn_ignoring)

lemma ApplicationLoadBalancerConstruct_principal:
  "\<not> threw (ApplicationLoadBalancerConstruct readProperty scope ident cert acct region
                    https pubs pre v t)
   \<and> map firstPrincipalIdentifiers
        (emitted DataAwsIamPolicyDocument
          (added t (ApplicationLoadBalancerConstruct readProperty scope ident cert acct region
                      https pubs pre v t)))
     = [Array [Str (''arn:aws:iam::''
                    @ ToString (js_get lbLogsBucketPolicyAccountIdDependingOnRegion region)
                    @ '':root'')]]"
  by (simp add: ApplicationLoadBalancerConstruct_eval map_overrideIn_ignoring
        firstPrincipalIdentifiers_def)

lemma Object_prototype_distinct: "distinct (map fst Object_prototype)"
  by (simp add: Object_prototype_def)

lemma Object_prototype_text:
  assumes "(k, inherited) \<in> set Object_prototype"
  shows "ToString inherited \<noteq> ''undefined''"
  using assms by (auto simp add: Object_prototype_def)

lemma js_get_not_own:
  assumes "k \<notin> fst ` set obj"
  shows "k \<notin> fst ` set Object_prototype \<Longrightarrow> js_get obj k = Undefined"
    and "(k, inherited) \<in> set Object_prototype \<Longrightarrow> js_get obj k = inherited"
proof -
  have own: "map_of obj k = None"
    using assms by (simp add: map_of_eq_None_iff)
  show "js_get obj k = Undefined" if "k \<notin> fst ` set Object_prototype"
  proof -
    from that have "map_of Object_prototype k = None"
      by (simp add: map_of_eq_None_iff)
    with own show ?thesis by (simp add: js_get_def)
  qed
  show "js_get obj k = inherited" if "(k, inherited) \<in> set Object_prototype"
  proof -
    from that have "map_of Object_prototype k = Some inherited"
      using Object_prototype_distinct by (simp add: map_of_eq_Some_iff)
    with own show ?thesis by (simp add: js_get_def)
  qed
qed

text \<open>
  Claim C10, as amended. For every region string that is not a key of the region table the
  load balancer unit does not throw. If the string is not the name of a property that every
  object inherits either, the principal of the access-log bucket policy is the text
  \<open>arn:aws:iam::undefined:root\<close>. If it is such a name, the lookup in the table finds the
  inherited value, and the principal embeds the text of that value in place of an account
  identifier; that text is never \<open>undefined\<close>.
\<close>

theorem ApplicationLoadBalancerConstruct_unknown_region:
  assumes "region \<notin> fst ` set lbLogsBucketPolicyAccountIdDependingOnRegion"
  shows "\<not> threw (ApplicationLoadBalancerConstruct readProperty scope ident cert acct region
                    https pubs pre v t)
   \<and> (region \<notin> fst ` set Object_prototype \<longrightarrow>
        map firstPrincipalIdentifiers
          (emitted DataAwsIamPolicyDocument
            (added t (ApplicationLoadBalancerConstruct readProperty scope ident cert acct region
                        https pubs pre v t)))
        = [Array [Str ''arn:aws:iam::undefined:root'']])
   \<and> (\<forall>inherited. (region, inherited) \<in> set Object_prototype \<longrightarrow>
        map firstPrincipalIdentifiers
          (emitted DataAwsIamPolicyDocument
            (added t (ApplicationLoadBalancerConstruct readProperty scope ident cert acct region
                        https pubs pre v t)))
        = [Array [Str (''arn:aws:iam::'' @ ToString inherited @ '':root'')]]
        \<and> ToString inherited \<noteq> ''undefined'')"
  using ApplicationLoadBalancerConstruct_principal
    [of readProperty scope ident cert acct region https pubs pre v t]
    js_get_not_own [OF assms] Object_prototype_text [of region]
  by simp

theorem ApplicationLoadBalancerConstruct_unknown_region_witness:
  "''ap-southeast-3'' \<notin> fst ` set lbLogsBucketPolicyAccountIdDependingOnRegion
   \<and> ''ap-southeast-3'' \<notin> fst ` set Object_prototype
   \<and> \<not> threw (ApplicationLoadBalancerConstruct getProp [''stack'', ''network'']
          ''application_load_balancer'' (example_resource AcmCertificate ''cert'')
          (example_resource DataAwsCallerIdentity ''account'')
          ''ap-southeast-3'' True [] ''app'' (example_resource Vpc ''vpc'') [])
   \<and> map firstPrincipalIdentifiers
        (emitted DataAwsIamPolicyDocument
          (added [] (ApplicationLoadBalancerConstruct getProp [''stack'', ''network'']
          ''application_load_balancer'' (example_resource AcmCertificate ''cert'')
          (example_resource DataAwsCallerIdentity ''account'')
          ''ap-southeast-3'' True [] ''app'' (example_resource Vpc ''vpc'') [])))
     = [Array [Str ''arn:aws:iam::undefined:root'']]
   \<and> ''valueOf'' \<notin> fst ` set lbLogsBucketPolicyAccountIdDependingOnRegion
   \<and> (''valueOf'', NativeFunction ''valueOf'') \<in> set Object_prototype
   \<and> \<not> threw (ApplicationLoadBalancerConstruct getProp [''stack'', ''network'']
          ''application_load_balancer'' (example_resource AcmCertificate ''cert'')
          (example_resource DataAwsCallerIdentity ''account'')
          ''valueOf'' True [] ''app'' (example_resource Vpc ''vpc'') [])
   \<and> map firstPrincipalIdentifiers
        (emitted DataAwsIamPolicyDocument
          (added [] (ApplicationLoadBalancerConstruct getProp [''stack'', ''network'']
          ''application_load_balancer'' (example_resource AcmCertificate ''cert'')
          (example_resource DataAwsCallerIdentity ''account'')
          ''valueOf'' True [] ''app'' (example_resource Vpc ''vpc'') [])))
     = [Array [Str ''arn:aws:iam::function valueOf() { [native code] }:root'']]"
proof -
  have a: "''ap-southeast-3'' \<notin> fst ` set lbLogsBucketPolicyAccountIdDependingOnRegion"
    by (simp add: lbLogsBucketPolicyAccountIdDependingOnRegion_def)
  have b: "''ap-southeast-3'' \<notin> fst ` set Object_prototype"
    by (simp add: Object_prototype_def)
  have c: "''valueOf'' \<notin> fst ` set lbLogsBucketPolicyAccountIdDependingOnRegion"
    by (simp add: lbLogsBucketPolicyAccountIdDependingOnRegion_def)
  have d: "(''valueOf'', NativeFunction ''valueOf'') \<in> set Object_prototype"
    by (simp add: Object_prototype_def)
  show ?thesis
    using a b c d
      ApplicationLoadBalancerConstruct_unknown_region [OF a,
        of getProp "[''stack'', ''network'']" "''application_load_balancer''"
        "example_resource AcmCertificate ''cert''"
        "example_resource DataAwsCallerIdentity ''account''" True "[]" "''app''"
        "example_resource Vpc ''vpc''" "[]"]
      ApplicationLoadBalancerConstruct_unknown_region [OF c,
        of getProp "[''stack'', ''network'']" "''application_load_balancer''"
        "example_resource AcmCertificate ''cert''"
        "example_resource DataAwsCallerIdentity ''account''" True "[]" "''app''"
        "example_resource Vpc ''vpc''" "[]"]
    by simp
qed

text \<open>
  The claim as stated fails at the region string \<open>toString\<close>: it is not a key of the
  table, yet the lookup finds the function that every object inherits under that name, and
  the principal embeds the text of that function, not \<open>undefined\<close>.
\<close>

theorem ApplicationLoadBalancerConstruct_region_toString:
  "map_of lbLogsBucketPolicyAccountIdDependingOnRegion ''toString'' = None
   \<and> map firstPrincipalIdentifiers
        (emitted DataAwsIamPolicyDocument
          (added [] (ApplicationLoadBalancerConstruct getProp [''stack'', ''network''] ''application_load_balancer''
          (example_resource AcmCertificate ''cert'') (example_resource DataAwsCallerIdentity ''account'')
          ''toString'' True [] ''app'' (example_resource Vpc ''vpc'') [])))
     = [Array [Str ''arn:aws:iam::function toString() { [native code] }:root'']]
   \<and> map firstPrincipalIdentifiers
        (emitted DataAwsIamPolicyDocument
          (added [] (ApplicationLoadBalancerConstruct getProp [''stack'', ''network''] ''application_load_balancer''
          (example_resource AcmCertificate ''cert'') (example_resource DataAwsCallerIdentity ''account'')
          ''toString'' True [] ''app'' (example_resource Vpc ''vpc'') [])))
     \<noteq> [Array [Str ''arn:aws:iam::undefined:root'']]"
proof -
  have a: "map_of lbLogsBucketPolicyAccountIdDependingOnRegion ''toString'' = None"
    by (simp add: lbLogsBucketPolicyAccountIdDependingOnRegion_def)
  have b: "js_get lbLogsBucketPolicyAccountIdDependingOnRegion ''toString''
             = NativeFunction ''toString''"
    using a by (simp add: js_get_def Object_prototype_def)
  show ?thesis
    using a b ApplicationLoadBalancerConstruct_principal [of getProp "[''stack'', ''network'']"
        "''application_load_balancer''" "example_resource AcmCertificate ''cert''"
        "example_resource DataAwsCallerIdentity ''account''" "''toString''" True "[]" "''app''"
        "example_resource Vpc ''vpc''" "[]"]
    by simp
qed
section \<open>The replication loops of the network units\<close>

lemma strip_descriptor [simp]: "strip (descriptor k this ident cfg) = descriptor k this ident cfg"
  by (simp add: strip_def descriptor_def)

lemma strip_sel [simp]:
  "kind (strip r) = kind r" "path (strip r) = path r" "fqn (strip r) = fqn r"
  "config (strip r) = config r" "getProp (strip r) q = getProp r q"
  by (simp_all add: strip_def getProp_def)

lemma map_strip_overrideIn [simp]: "map strip (overrideIn r p v t) = map strip t"
  by (rule map_overrideIn_ignoring) (simp add: strip_def)

lemma map_strip_nullify [simp]: "map strip (nullify r ps t) = map strip t"
  by (induction ps arbitrary: t) (simp_all add: nullify_Cons)

lemma SubnetsConstruct_private_step:
  assumes "i < n"
  shows "\<exists>d. (\<forall>acc t. SubnetsConstruct_private this n pre v az i acc t
                 = SubnetsConstruct_private this n pre v az (i + 1) (acc @ [d]) (t @ [d]))
     \<and> kind d = Subnet \<and> getProp d ''mapPublicIpOnLaunch'' = Undefined
     \<and> rawOverrides d = []"
  apply (subst SubnetsConstruct_private.simps)
  apply (simp add: assms)
  apply (rule exI, rule conjI, rule allI, rule allI, rule refl)
  apply (simp add: js_get_def Object_prototype_def)
  done

lemma SubnetsConstruct_private_effect:
  "\<exists>ds. (\<forall>acc t. SubnetsConstruct_private this n pre v az i acc t
                  = Returned (acc @ ds) (t @ ds))
     \<and> length ds = nat (n - i)
     \<and> (\<forall>d \<in> set ds. kind d = Subnet \<and> getProp d ''mapPublicIpOnLaunch'' = Undefined
           \<and> rawOverrides d = [])"
proof (induction "nat (n - i)" arbitrary: i)
  case 0
  then have "\<not> i < n" by simp
  then have "\<forall>acc t. SubnetsConstruct_private this n pre v az i acc t
               = Returned (acc @ []) (t @ [])"
    by (simp add: SubnetsConstruct_private.simps)
  then show ?case using 0 by (intro exI [of _ "[]"]) simp
next
  case (Suc k)
  then have lt: "i < n" and k: "k = nat (n - (i + 1))" by simp_all
  from SubnetsConstruct_private_step [OF lt] obtain d where
    d: "\<And>acc t. SubnetsConstruct_private this n pre v az i acc t
            = SubnetsConstruct_private this n pre v az (i + 1) (acc @ [d]) (t @ [d])"
    and dk: "kind d = Subnet" "getProp d ''mapPublicIpOnLaunch'' = Undefined" "rawOverrides d = []"
    by blast
  from Suc.hyps(1) [OF k] obtain ds where
    ds: "\<And>acc t. SubnetsConstruct_private this n pre v az (i + 1) acc t
            = Returned (acc @ ds) (t @ ds)"
    and len: "length ds = nat (n - (i + 1))"
    and kinds: "\<forall>d \<in> set ds. kind d = Subnet \<and> getProp d ''mapPublicIpOnLaunch'' = Undefined
           \<and> rawOverrides d = []"
    by blast
  have "\<forall>acc t. SubnetsConstruct_private this n pre v az i acc t
          = Returned (acc @ d # ds) (t @ d # ds)"
    by (simp add: d ds)
  moreover have "length (d # ds) = nat (n - i)"
    using len lt by simp
  ultimately show ?case
    using dk kinds by (intro exI [of _ "d # ds"]) simp
qed

lemma SubnetsConstruct_public_step:
  assumes "i < max n 2"
  shows "\<exists>d. (\<forall>acc t. SubnetsConstruct_public this n pre v az i acc t
                 = SubnetsConstruct_public this n pre v az (i + 1) (acc @ [d]) (t @ [d]))
     \<and> kind d = Subnet \<and> getProp d ''mapPublicIpOnLaunch'' = Boolean True
     \<and> rawOverrides d = []"
  apply (subst SubnetsConstruct_public.simps)
  apply (simp add: assms)
  apply (rule exI, rule conjI, rule allI, rule allI, rule refl)
  apply (simp add: js_get_def)
  done

lemma SubnetsConstruct_public_effect:
  "\<exists>ds. (\<forall>acc t. SubnetsConstruct_public this n pre v az i acc t
                  = Returned (acc @ ds) (t @ ds))
     \<and> length ds = nat (max n 2 - i)
     \<and> (\<forall>d \<in> set ds. kind d = Subnet \<and> getProp d ''mapPublicIpOnLaunch'' = Boolean True
           \<and> rawOverrides d = [])"
proof (induction "nat (max n 2 - i)" arbitrary: i)
  case 0
  then have "\<not> i < max n 2" by arith
  then have "\<forall>acc t. SubnetsConstruct_public this n pre v az i acc t
               = Returned (acc @ []) (t @ [])"
    by (simp add: SubnetsConstruct_public.simps)
  then show ?case using 0 by (intro exI [of _ "[]"]) simp
next
  case (Suc k)
  then have lt: "i < max n 2" and k: "k = nat (max n 2 - (i + 1))" by arith+
  from SubnetsConstruct_public_step [OF lt] obtain d where
    d: "\<And>acc t. SubnetsConstruct_public this n pre v az i acc t
            = SubnetsConstruct_public this n pre v az (i + 1) (acc @ [d]) (t @ [d])"
    and dk: "kind d = Subnet" "getProp d ''mapPublicIpOnLaunch'' = Boolean True"
      "rawOverrides d = []"
    by blast
  from Suc.hyps(1) [OF k] obtain ds where
    ds: "\<And>acc t. SubnetsConstruct_public this n pre v az (i + 1) acc t
            = Returned (acc @ ds) (t @ ds)"
    and len: "length ds = nat (max n 2 - (i + 1))"
    and kinds: "\<forall>d \<in> set ds. kind d = Subnet \<and> getProp d ''mapPublicIpOnLaunch'' = Boolean True
           \<and> rawOverrides d = []"
    by blast
  have "\<forall>acc t. SubnetsConstruct_public this n pre v az i acc t
          = Returned (acc @ d # ds) (t @ d # ds)"
    by (simp add: d ds)
  moreover have "length (d # ds) = nat (max n 2 - i)"
    using len lt by simp
  ultimately show ?case
    using dk kinds by (intro exI [of _ "d # ds"]) simp
qed

lemma SubnetsConstruct_effect:
  "\<exists>az privs pubs.
     (\<forall>t. SubnetsConstruct scope ident n pre v t
            = Returned \<lparr>Subnets_privateSubnets = privs, Subnets_publicSubnets = pubs\<rparr>
                (t @ az # privs @ pubs))
     \<and> kind az = DataAwsAvailabilityZones \<and> rawOverrides az = []
     \<and> length privs = nat n \<and> length pubs = nat (max n 2)
     \<and> (\<forall>d \<in> set privs. kind d = Subnet \<and> getProp d ''mapPublicIpOnLaunch'' = Undefined
           \<and> rawOverrides d = [])
     \<and> (\<forall>d \<in> set pubs. kind d = Subnet \<and> getProp d ''mapPublicIpOnLaunch'' = Boolean True
           \<and> rawOverrides d = [])"
proof -
  define az where "az = descriptor DataAwsAvailabilityZones (scope @ [ident]) ''availability_zone'' []"
  from SubnetsConstruct_private_effect [of "scope @ [ident]" n pre v az 0] obtain privs where
    privs: "\<And>acc t. SubnetsConstruct_private (scope @ [ident]) n pre v az 0 acc t
               = Returned (acc @ privs) (t @ privs)"
    and p: "length privs = nat n"
      "\<forall>d \<in> set privs. kind d = Subnet \<and> getProp d ''mapPublicIpOnLaunch'' = Undefined
           \<and> rawOverrides d = []"
    by auto
  from SubnetsConstruct_public_effect [of "scope @ [ident]" n pre v az 0] obtain pubs where
    pubs: "\<And>acc t. SubnetsConstruct_public (scope @ [ident]) n pre v az 0 acc t
               = Returned (acc @ pubs) (t @ pubs)"
    and q: "length pubs = nat (max n 2)"
      "\<forall>d \<in> set pubs. kind d = Subnet \<and> getProp d ''mapPublicIpOnLaunch'' = Boolean True
           \<and> rawOverrides d = []"
    by auto
  have "\<forall>t. SubnetsConstruct scope ident n pre v t
            = Returned \<lparr>Subnets_privateSubnets = privs, Subnets_publicSubnets = pubs\<rparr>
                (t @ az # privs @ pubs)"
    by (simp add: SubnetsConstruct_def Let_def az_def [symmetric] bind_def privs pubs)
  moreover have "kind az = DataAwsAvailabilityZones" "rawOverrides az = []"
    by (simp_all add: az_def)
  ultimately show ?thesis
    using p q by blast
qed

lemma ElasticIpsConstruct_loop_step:
  assumes "i < n"
  shows "\<exists>d. (\<forall>acc t. ElasticIpsConstruct_loop this igw n pre i acc t
                 = ElasticIpsConstruct_loop this igw n pre (i + 1) (acc @ [d]) (t @ [d]))
     \<and> kind d = Eip \<and> rawOverrides d = []"
  apply (subst ElasticIpsConstruct_loop.simps)
  apply (simp add: assms)
  apply (rule exI, rule conjI, rule allI, rule allI, rule refl)
  apply simp
  done

lemma ElasticIpsConstruct_loop_effect:
  "\<exists>ds. (\<forall>acc t. ElasticIpsConstruct_loop this igw n pre i acc t
                  = Returned (acc @ ds) (t @ ds))
     \<and> length ds = nat (n - i)
     \<and> (\<forall>d \<in> set ds. kind d = Eip \<and> rawOverrides d = [])"
proof (induction "nat (n - i)" arbitrary: i)
  case 0
  then have "\<not> i < n" by simp
  then have "\<forall>acc t. ElasticIpsConstruct_loop this igw n pre i acc t
               = Returned (acc @ []) (t @ [])"
    by (simp add: ElasticIpsConstruct_loop.simps)
  then show ?case using 0 by (intro exI [of _ "[]"]) simp
next
  case (Suc k)
  then have lt: "i < n" and k: "k = nat (n - (i + 1))" by simp_all
  from ElasticIpsConstruct_loop_step [OF lt] obtain d where
    d: "\<And>acc t. ElasticIpsConstruct_loop this igw n pre i acc t
            = ElasticIpsConstruct_loop this igw n pre (i + 1) (acc @ [d]) (t @ [d])"
    and dk: "kind d = Eip" "rawOverrides d = []"
    by blast
  from Suc.hyps(1) [OF k] obtain ds where
    ds: "\<And>acc t. ElasticIpsConstruct_loop this igw n pre (i + 1) acc t
            = Returned (acc @ ds) (t @ ds)"
    and len: "length ds = nat (n - (i + 1))"
    and kinds: "\<forall>d \<in> set ds. kind d = Eip \<and> rawOverrides d = []"
    by blast
  have "\<forall>acc t. ElasticIpsConstruct_loop this igw n pre i acc t
          = Returned (acc @ d # ds) (t @ d # ds)"
    by (simp add: d ds)
  moreover have "length (d # ds) = nat (n - i)"
    using len lt by simp
  ultimately show ?case
    using dk kinds by (intro exI [of _ "d # ds"]) simp
qed

lemma ElasticIpsConstruct_effect:
  "\<exists>ds. (\<forall>t. ElasticIpsConstruct scope ident igw n pre t = Returned ds (t @ ds))
     \<and> length ds = nat n
     \<and> (\<forall>d \<in> set ds. kind d = Eip \<and> rawOverrides d = [])"
  using ElasticIpsConstruct_loop_effect [of "scope @ [ident]" igw n pre 0]
  by (simp add: ElasticIpsConstruct_def Let_def) (metis append_Nil)

lemma element_in_range:
  assumes "0 \<le> i" and "i < int (length xs)"
  shows "element xs i = return (xs ! nat i)"
  using assms by (simp add: element_def)

lemma NatGatewaysConstruct_loop_step:
  assumes "i < n" and "0 \<le> i" and "n \<le> int (length eips)" and "n \<le> int (length pubs)"
  shows "\<exists>d. (\<forall>acc t. NatGatewaysConstruct_loop this eips igw n pubs pre i acc t
                 = NatGatewaysConstruct_loop this eips igw n pubs pre (i + 1) (acc @ [d]) (t @ [d]))
     \<and> kind d = NatGateway \<and> rawOverrides d = []"
proof -
  have a: "element eips i = return (eips ! nat i)" "element pubs i = return (pubs ! nat i)"
    using assms by (simp_all add: element_in_range)
  show ?thesis
    apply (subst NatGatewaysConstruct_loop.simps)
    apply (simp add: assms(1) a)
    apply (rule exI, rule conjI, rule allI, rule allI, rule refl)
    apply simp
    done
qed

lemma NatGatewaysConstruct_loop_effect:
  assumes "0 \<le> i" and "n \<le> int (length eips)" and "n \<le> int (length pubs)"
  shows "\<exists>ds. (\<forall>acc t. NatGatewaysConstruct_loop this eips igw n pubs pre i acc t
                  = Returned (acc @ ds) (t @ ds))
     \<and> length ds = nat (n - i)
     \<and> (\<forall>d \<in> set ds. kind d = NatGateway \<and> rawOverrides d = [])"
  using assms(1)
proof (induction "nat (n - i)" arbitrary: i)
  case 0
  then have "\<not> i < n" by simp
  then have "\<forall>acc t. NatGatewaysConstruct_loop this eips igw n pubs pre i acc t
               = Returned (acc @ []) (t @ [])"
    by (simp add: NatGatewaysConstruct_loop.simps)
  then show ?case using 0 by (intro exI [of _ "[]"]) simp
next
  case (Suc k)
  then have lt: "i < n" and k: "k = nat (n - (i + 1))" and nn: "0 \<le> i + 1" by simp_all
  from NatGatewaysConstruct_loop_step [OF lt Suc.prems assms(2,3)] obtain d where
    d: "\<And>acc t. NatGatewaysConstruct_loop this eips igw n pubs pre i acc t
            = NatGatewaysConstruct_loop this eips igw n pubs pre (i + 1) (acc @ [d]) (t @ [d])"
    and dk: "kind d = NatGateway" "rawOverrides d = []"
    by blast
  from Suc.hyps(1) [OF k nn] obtain ds where
    ds: "\<And>acc t. NatGatewaysConstruct_loop this eips igw n pubs pre (i + 1) acc t
            = Returned (acc @ ds) (t @ ds)"
    and len: "length ds = nat (n - (i + 1))"
    and kinds: "\<forall>d \<in> set ds. kind d = NatGateway \<and> rawOverrides d = []"
    by blast
  have "\<forall>acc t. NatGatewaysConstruct_loop this eips igw n pubs pre i acc t
          = Returned (acc @ d # ds) (t @ d # ds)"
    by (simp add: d ds)
  moreover have "length (d # ds) = nat (n - i)"
    using len lt by simp
  ultimately show ?case
    using dk kinds by (intro exI [of _ "d # ds"]) simp
qed

lemma NatGatewaysConstruct_effect:
  assumes "n \<le> int (length eips)" and "n \<le> int (length pubs)"
  shows "\<exists>ds. (\<forall>t. NatGatewaysConstruct scope ident eips igw n pubs pre t = Returned ds (t @ ds))
     \<and> length ds = nat n
     \<and> (\<forall>d \<in> set ds. kind d = NatGateway \<and> rawOverrides d = [])"
  using NatGatewaysConstruct_loop_effect [OF _ assms, of 0 "scope @ [ident]" igw pre] assms
  by (simp add: NatGatewaysConstruct_def Let_def) (metis append_Nil)
section \<open>Reasoning about the effect of a constructor\<close>

lemma effectI:
  assumes "\<And>t. \<exists>S. map strip (tree_of (m t)) = map strip t @ S \<and> \<Phi> (result_of (m t)) S"
  shows "effect m \<Phi>"
  using assms by (simp add: effect_def)

lemma effectD:
  assumes "effect m \<Phi>"
  obtains S where "map strip (tree_of (m t)) = map strip t @ S" and "\<Phi> (result_of (m t)) S"
  using assms unfolding effect_def by blast

lemma effect_weaken:
  assumes "effect m \<Phi>" and "\<And>r S. \<Phi> r S \<Longrightarrow> \<Psi> r S"
  shows "effect m \<Psi>"
  using assms unfolding effect_def by blast

lemma effect_Returned: "\<Phi> (Some x) [] \<Longrightarrow> effect (Returned x) \<Phi>"
  by (simp add: effect_def)

lemma effect_Threw: "\<Phi> None [] \<Longrightarrow> effect (Threw e) \<Phi>"
  by (simp add: effect_def)

lemma effect_return: "\<Phi> (Some x) [] \<Longrightarrow> effect (return x) \<Phi>"
  by (simp add: effect_def)

lemma effect_throw: "\<Phi> None [] \<Longrightarrow> effect (throw msg) \<Phi>"
  by (simp add: effect_def)

lemma effect_new:
  "\<Phi> (Some (descriptor k this ident cfg)) [descriptor k this ident cfg]
     \<Longrightarrow> effect (new k this ident cfg) \<Phi>"
  by (simp add: effect_def)

lemma effect_bind:
  assumes m: "effect m \<Psi>"
    and f: "\<And>x S1. \<Psi> (Some x) S1 \<Longrightarrow> effect (f x) (\<lambda>r S2. \<Phi> r (S1 @ S2))"
    and e: "\<And>S1. \<Psi> None S1 \<Longrightarrow> \<Phi> None S1"
  shows "effect (bind m f) \<Phi>"
proof (rule effectI)
  fix t
  from m obtain S1 where S1: "map strip (tree_of (m t)) = map strip t @ S1"
    and p1: "\<Psi> (result_of (m t)) S1"
    by (rule effectD)
  show "\<exists>S. map strip (tree_of (bind m f t)) = map strip t @ S \<and> \<Phi> (result_of (bind m f t)) S"
  proof (cases "m t")
    case (Threw err t')
    with S1 p1 e show ?thesis by (auto simp add: bind_def)
  next
    case (Returned x t')
    with p1 have "effect (f x) (\<lambda>r S2. \<Phi> r (S1 @ S2))" by (simp add: f)
    then obtain S2 where "map strip (tree_of (f x t')) = map strip t' @ S2"
      and "\<Phi> (result_of (f x t')) (S1 @ S2)"
      by (rule effectD)
    with Returned S1 show ?thesis by (auto simp add: bind_def)
  qed
qed

lemma effect_bind_new:
  assumes "effect (f (descriptor k this ident cfg)) (\<lambda>r S. \<Phi> r (descriptor k this ident cfg # S))"
  shows "effect (bind (new k this ident cfg) f) \<Phi>"
  by (rule effect_bind [where \<Psi> = "\<lambda>r S. r = Some (descriptor k this ident cfg)
                                         \<and> S = [descriptor k this ident cfg]"])
    (use assms in \<open>simp_all add: effect_new\<close>)

lemma effect_silent:
  assumes "\<And>t. \<exists>t'. m t = Returned x t' \<and> map strip t' = map strip t"
  shows "effect m (\<lambda>r S. r = Some x \<and> S = [])"
proof (rule effectI)
  fix t
  from assms obtain t' where "m t = Returned x t'" "map strip t' = map strip t" by blast
  then show "\<exists>S. map strip (tree_of (m t)) = map strip t @ S \<and> result_of (m t) = Some x \<and> S = []"
    by simp
qed

lemma effect_bind_silent:
  assumes "\<And>t. \<exists>t'. m t = Returned x t' \<and> map strip t' = map strip t"
    and "effect (f x) \<Phi>"
  shows "effect (bind m f) \<Phi>"
  by (rule effect_bind [OF effect_silent [OF assms(1)]]) (use assms(2) in simp_all)

lemma effect_bind_overrideNullValuesForSecurityGroupRule:
  "effect (f r) \<Phi> \<Longrightarrow> effect (bind (overrideNullValuesForSecurityGroupRule readProperty r) f) \<Phi>"
  by (rule effect_bind_silent) (simp_all add: overrideNullValuesForSecurityGroupRule_nullify)

lemma effect_bind_overrideNullValuesForSecurityGroup:
  "effect (f r) \<Phi> \<Longrightarrow> effect (bind (overrideNullValuesForSecurityGroup r) f) \<Phi>"
  by (rule effect_bind_silent) (simp_all add: overrideNullValuesForSecurityGroup_nullify)

lemma effect_bind_overrideNullValuesForRouteTable:
  "effect (f r) \<Phi> \<Longrightarrow> effect (bind (overrideNullValuesForRouteTable r) f) \<Phi>"
  by (rule effect_bind_silent) (simp_all add: overrideNullValuesForRouteTable_nullify)

lemma effect_if:
  assumes "c \<Longrightarrow> effect a \<Phi>" and "\<not> c \<Longrightarrow> effect b \<Phi>"
  shows "effect (if c then a else b) \<Phi>"
  using assms by simp

lemma effect_exact:
  assumes "\<And>t. m t = Returned x (t @ ds)"
  shows "effect m (\<lambda>r S. r = Some x \<and> S = map strip ds)"
  by (rule effectI) (simp add: assms)

lemma effect_appended:
  assumes "\<Phi> (Some x) (map strip ds)"
  shows "effect (\<lambda>t. Returned x (t @ ds)) \<Phi>"
  by (rule effectI) (use assms in simp)

text \<open>A loop body that creates one descriptor of kind \<open>K\<close> per element.\<close>

lemma effect_forEach:
  assumes "\<And>a. a \<in> set xs \<Longrightarrow>
             effect (f a) (\<lambda>r S. r = Some () \<and> length S = 1 \<and> (\<forall>d \<in> set S. P d))"
  shows "effect (forEach f xs)
           (\<lambda>r S. r = Some () \<and> length S = length xs \<and> (\<forall>d \<in> set S. P d))"
  using assms
proof (induction xs)
  case Nil
  show ?case by (simp add: effect_Returned)
next
  case (Cons a xs)
  have a: "effect (f a) (\<lambda>r S. r = Some () \<and> length S = 1 \<and> (\<forall>d \<in> set S. P d))"
    by (rule Cons.prems) simp
  have xs: "effect (forEach f xs)
              (\<lambda>r S. r = Some () \<and> length S = length xs \<and> (\<forall>d \<in> set S. P d))"
    by (rule Cons.IH) (rule Cons.prems, simp)
  show ?case
    unfolding forEach.simps
  proof (rule effect_bind [OF a])
    fix x :: unit and S1 :: "resource list"
    assume "Some x = Some () \<and> length S1 = 1 \<and> (\<forall>d \<in> set S1. P d)"
    then show "effect (forEach f xs)
            (\<lambda>r S2. r = Some () \<and> length (S1 @ S2) = length (a # xs)
                     \<and> (\<forall>d \<in> set (S1 @ S2). P d))"
      by (intro effect_weaken [OF xs]) auto
  next
    fix S1 :: "resource list"
    assume "None = Some () \<and> length S1 = 1 \<and> (\<forall>d \<in> set S1. P d)"
    then show "None = Some () \<and> length S1 = length (a # xs) \<and> (\<forall>d \<in> set S1. P d)"
      by simp
  qed
qed
section \<open>The network units\<close>

lemma counts_Nil [simp]: "counts [] a b c d \<longleftrightarrow> a = 0 \<and> b = 0 \<and> c = 0 \<and> d = 0"
  by (auto simp add: counts_def privateSubnetDescriptors_def publicSubnetDescriptors_def)

lemma counts_append:
  assumes "counts A a b c d" and "counts B a' b' c' d'"
  shows "counts (A @ B) (a + a') (b + b') (c + c') (d + d')"
  using assms
  by (simp add: counts_def privateSubnetDescriptors_def publicSubnetDescriptors_def)

lemma counts_other:
  assumes "\<forall>x \<in> set S. kind x \<noteq> Subnet \<and> kind x \<noteq> Eip \<and> kind x \<noteq> NatGateway"
  shows "counts S 0 0 0 0"
  using assms
  by (induction S)
    (simp_all add: counts_def privateSubnetDescriptors_def publicSubnetDescriptors_def)

lemma counts_unique:
  assumes "counts S a b c d" and "counts S a' b' c' d'"
  shows "a = a' \<and> b = b' \<and> c = c' \<and> d = d'"
  using assms by (simp add: counts_def)

lemma counts_private:
  assumes "\<forall>x \<in> set S. kind x = Subnet \<and> getProp x ''mapPublicIpOnLaunch'' = Undefined"
  shows "counts S (length S) 0 0 0"
  using assms
  by (induction S)
    (simp_all add: counts_def privateSubnetDescriptors_def publicSubnetDescriptors_def)

lemma counts_public:
  assumes "\<forall>x \<in> set S. kind x = Subnet \<and> getProp x ''mapPublicIpOnLaunch'' = Boolean True"
  shows "counts S 0 (length S) 0 0"
  using assms
  by (induction S)
    (simp_all add: counts_def privateSubnetDescriptors_def publicSubnetDescriptors_def)

lemma counts_Eip:
  assumes "\<forall>x \<in> set S. kind x = Eip"
  shows "counts S 0 0 (length S) 0"
  using assms
  by (induction S)
    (simp_all add: counts_def privateSubnetDescriptors_def publicSubnetDescriptors_def)

lemma counts_NatGateway:
  assumes "\<forall>x \<in> set S. kind x = NatGateway"
  shows "counts S 0 0 0 (length S)"
  using assms
  by (induction S)
    (simp_all add: counts_def privateSubnetDescriptors_def publicSubnetDescriptors_def)

lemma VpcConstruct_effect:
  "effect (VpcConstruct scope ident pre) (\<lambda>r S. r \<noteq> None \<and> counts S 0 0 0 0)"
  unfolding VpcConstruct_def Let_def
  by (rule effect_new) (simp add: counts_other)

lemma InternetGatewayConstruct_effect:
  "effect (InternetGatewayConstruct scope ident pre v) (\<lambda>r S. r \<noteq> None \<and> counts S 0 0 0 0)"
  unfolding InternetGatewayConstruct_def Let_def
  by (rule effect_new) (simp add: counts_other)

lemma SubnetsConstruct_counts:
  "effect (SubnetsConstruct scope ident n pre v)
     (\<lambda>r S. (\<exists>res. r = Some res \<and> length (Subnets_privateSubnets res) = nat n
                \<and> length (Subnets_publicSubnets res) = nat (max n 2))
            \<and> counts S (nat n) (nat (max n 2)) 0 0)"
proof -
  from SubnetsConstruct_effect [of scope ident n pre v] obtain az privs pubs where
    eq: "\<And>t. SubnetsConstruct scope ident n pre v t
            = Returned \<lparr>Subnets_privateSubnets = privs, Subnets_publicSubnets = pubs\<rparr>
                (t @ az # privs @ pubs)"
    and az: "kind az = DataAwsAvailabilityZones"
    and len: "length privs = nat n" "length pubs = nat (max n 2)"
    and privs: "\<forall>d \<in> set privs. kind d = Subnet \<and> getProp d ''mapPublicIpOnLaunch'' = Undefined
           \<and> rawOverrides d = []"
    and pubs: "\<forall>d \<in> set pubs. kind d = Subnet \<and> getProp d ''mapPublicIpOnLaunch'' = Boolean True
           \<and> rawOverrides d = []"
    by blast
  have "counts (map strip [az]) 0 0 0 0"
    using az by (intro counts_other) simp
  moreover have "counts (map strip privs) (length (map strip privs)) 0 0 0"
    using privs by (intro counts_private) simp
  moreover have "counts (map strip pubs) 0 (length (map strip pubs)) 0 0"
    using pubs by (intro counts_public) simp
  ultimately have "counts (map strip (az # privs @ pubs)) (nat n) (nat (max n 2)) 0 0"
    using counts_append [OF counts_append, of "map strip [az]" 0 0 0 0 "map strip privs"
        "length (map strip privs)" 0 0 0 "map strip pubs" 0 "length (map strip pubs)" 0 0] len
    by simp
  with len show ?thesis
    by (intro effect_weaken [OF effect_exact [OF eq]]) simp
qed

lemma ElasticIpsConstruct_counts:
  "effect (ElasticIpsConstruct scope ident igw n pre)
     (\<lambda>r S. (\<exists>eips. r = Some eips \<and> length eips = nat n) \<and> counts S 0 0 (nat n) 0)"
proof -
  from ElasticIpsConstruct_effect [of scope ident igw n pre] obtain ds where
    eq: "\<And>t. ElasticIpsConstruct scope ident igw n pre t = Returned ds (t @ ds)"
    and len: "length ds = nat n" and kinds: "\<forall>d \<in> set ds. kind d = Eip \<and> rawOverrides d = []"
    by blast
  have "counts (map strip ds) 0 0 (length (map strip ds)) 0"
    using kinds by (intro counts_Eip) simp
  with len show ?thesis
    by (intro effect_weaken [OF effect_exact [OF eq]]) simp
qed

lemma NatGatewaysConstruct_counts:
  assumes "n \<le> int (length eips)" and "n \<le> int (length pubs)"
  shows "effect (NatGatewaysConstruct scope ident eips igw n pubs pre)
     (\<lambda>r S. (\<exists>nats. r = Some nats \<and> length nats = nat n) \<and> counts S 0 0 0 (nat n))"
proof -
  from NatGatewaysConstruct_effect [OF assms, of scope ident igw pre] obtain ds where
    eq: "\<And>t. NatGatewaysConstruct scope ident eips igw n pubs pre t = Returned ds (t @ ds)"
    and len: "length ds = nat n"
    and kinds: "\<forall>d \<in> set ds. kind d = NatGateway \<and> rawOverrides d = []"
    by blast
  have "counts (map strip ds) 0 0 0 (length (map strip ds))"
    using kinds by (intro counts_NatGateway) simp
  with len show ?thesis
    by (intro effect_weaken [OF effect_exact [OF eq]]) simp
qed

lemma counts_Cons_other:
  assumes "kind x \<noteq> Subnet" and "kind x \<noteq> Eip" and "kind x \<noteq> NatGateway"
  shows "counts (x # S) a b c d \<longleftrightarrow> counts S a b c d"
  using assms by (simp add: counts_def privateSubnetDescriptors_def publicSubnetDescriptors_def)

lemma counts_append_other:
  assumes "counts A 0 0 0 0"
  shows "counts (A @ B) a b c d \<longleftrightarrow> counts B a b c d"
  using assms by (simp add: counts_def privateSubnetDescriptors_def publicSubnetDescriptors_def)

lemma indexed_Cons_less:
  assumes "(x, i) \<in> set (indexed xs)"
  shows "i < length xs"
  using assms by (auto simp add: indexed_def in_set_zip)

lemma indexed_length [simp]: "length (indexed xs) = length xs"
  by (simp add: indexed_def)

lemma RouteTablesConstruct_private_effect:
  assumes "\<forall>(p, idx) \<in> set rest. idx < length nats"
  shows "effect (RouteTablesConstruct_private this nats pre v rest acc)
     (\<lambda>r S. (\<exists>rts. r = Some (acc @ rts) \<and> length rts = length rest) \<and> counts S 0 0 0 0)"
  using assms
proof (induction rest arbitrary: acc)
  case Nil
  show ?case by (simp add: effect_Returned)
next
  case (Cons a rest)
  obtain p idx where a: "a = (p, idx)" by (cases a)
  with Cons.prems have idx: "element nats (int idx) = return (nats ! idx)"
    and rest: "\<forall>(p, idx) \<in> set rest. idx < length nats"
    by (simp_all add: element_in_range)
  show ?case
    unfolding a RouteTablesConstruct_private.simps idx bind_return
    apply (rule effect_bind_new)
    apply (rule effect_bind_overrideNullValuesForRouteTable)
    apply (rule effect_weaken [OF Cons.IH [OF rest]])
    apply (clarsimp simp add: counts_Cons_other)
    done
qed

lemma RouteTablesConstruct_effect:
  "effect (RouteTablesConstruct scope ident igw nats privs pubs pre v)
     (\<lambda>r S. (r = None \<longleftrightarrow> length nats \<noteq> length privs) \<and> counts S 0 0 0 0)"
proof (cases "length nats = length privs")
  case False
  then show ?thesis
    by (simp add: RouteTablesConstruct_def Let_def effect_Threw effect_throw)
next
  case True
  have nats: "\<forall>(p, idx) \<in> set (indexed privs). idx < length nats"
    using True by (auto dest: indexed_Cons_less)
  have assoc: "\<And>f :: resource \<times> nat \<Rightarrow> unit synth. \<And>xs.
      (\<And>a. a \<in> set xs \<Longrightarrow>
         effect (f a) (\<lambda>r S. r = Some () \<and> length S = 1
                        \<and> (\<forall>d \<in> set S. kind d = RouteTableAssociation)))
      \<Longrightarrow> effect (forEach f xs) (\<lambda>r S. r = Some () \<and> counts S 0 0 0 0)"
    by (rule effect_weaken [OF effect_forEach]) (auto intro: counts_other)
  show ?thesis
    unfolding RouteTablesConstruct_def Let_def
    apply (simp only: True refl if_False not_True_eq_False)
    apply (rule effect_bind_new)
    apply (rule effect_bind_overrideNullValuesForRouteTable)
    apply (rule effect_bind [OF assoc])
      apply (clarsimp)
      apply (rule effect_bind_new)
      apply (rule effect_return effect_Returned)
      apply simp
     prefer 2 apply simp
    apply (rule effect_bind [OF RouteTablesConstruct_private_effect [OF nats]])
     prefer 2 apply simp
    apply (elim conjE exE)
    apply (rule effect_bind [OF assoc])
      apply (clarsimp simp add: True element_in_range dest!: indexed_Cons_less)
      apply (rule effect_appended)
      apply simp
     prefer 2 apply simp
    apply (rule effect_return effect_Returned)
    apply (simp add: counts_Cons_other counts_append_other)
    done
qed

lemma SslConstruct_effect:
  "effect (SslConstruct scope ident domains pre)
     (\<lambda>r S. (r = None \<longleftrightarrow> domains = []) \<and> counts S 0 0 0 0)"
  unfolding SslConstruct_def Let_def
  apply (rule effect_if)
   apply (rule effect_throw)
   apply simp
  apply (rule effect_bind_new)
  apply (rule effect_return)
  apply (simp add: counts_Cons_other)
  done

lemma ApplicationLoadBalancerConstruct_effect:
  "effect (ApplicationLoadBalancerConstruct readProperty scope ident cert acct region https pubs pre v)
     (\<lambda>r S. r \<noteq> None \<and> counts S 0 0 0 0)"
  unfolding ApplicationLoadBalancerConstruct_def Let_def
  apply (intro effect_bind_new effect_bind_overrideNullValuesForSecurityGroupRule effect_return)
  apply (simp add: counts_Cons_other)
  done
lemma NetworkConstruct_effect:
  "effect (NetworkConstruct readProperty scope ident acct region domains https n pre)
     (\<lambda>r S. counts S (nat n) (nat (max n 2)) (nat n) (nat n)
            \<and> (r = None \<longleftrightarrow> domains = [])
            \<and> (\<forall>res. r = Some res \<longrightarrow> length (Network_privateSubnets res) = nat n))"
  unfolding NetworkConstruct_def Let_def
  apply (rule effect_bind [OF VpcConstruct_effect])
   prefer 2 apply simp
  apply (rule effect_bind [OF InternetGatewayConstruct_effect])
   prefer 2 apply simp
  apply (rule effect_bind [OF SubnetsConstruct_counts])
   prefer 2 apply simp
  apply (rule effect_bind [OF ElasticIpsConstruct_counts])
   prefer 2 apply simp
  apply (elim conjE exE)
  apply (rule effect_bind [OF NatGatewaysConstruct_counts])
     apply (clarsimp, arith?)
    apply (clarsimp, arith?)
   prefer 2 apply simp
  apply (elim conjE exE)
  apply (rule effect_bind [OF RouteTablesConstruct_effect])
   prefer 2 apply simp
  apply (rule effect_bind [OF SslConstruct_effect])
   prefer 2
   apply (elim conjE)
   apply (simp add: counts_def privateSubnetDescriptors_def publicSubnetDescriptors_def)
  apply (rule effect_bind [OF ApplicationLoadBalancerConstruct_effect])
   prefer 2 apply simp
  apply (rule effect_return effect_Returned)
  apply (elim conjE)
  apply (simp add: counts_def privateSubnetDescriptors_def publicSubnetDescriptors_def)
  done

lemma counts_map_strip [simp]: "counts (map strip X) a b c d \<longleftrightarrow> counts X a b c d"
proof -
  have "length (filter P (map strip X)) = length (filter (\<lambda>x. P (strip x)) X)"
    for P :: "resource \<Rightarrow> bool"
    by (induction X) simp_all
  then show ?thesis
    by (simp add: counts_def privateSubnetDescriptors_def publicSubnetDescriptors_def emitted_def)
qed

lemma effect_added:
  assumes "effect m \<Phi>"
  obtains S where "map strip (added t (m t)) = S" and "\<Phi> (result_of (m t)) S"
proof -
  from assms obtain S where S: "map strip (tree_of (m t)) = map strip t @ S"
    and p: "\<Phi> (result_of (m t)) S"
    by (rule effectD)
  have "map strip (added t (m t)) = drop (length t) (map strip (tree_of (m t)))"
    by (simp add: added_def drop_map)
  with S p that show ?thesis by simp
qed

lemma threw_result_of: "threw out \<longleftrightarrow> result_of out = None"
  by (cases out) simp_all

text \<open>
  Claim C1. For every availability-zone count \<open>n \<ge> 1\<close>, the descriptors that the network
  unit adds to the tree contain exactly \<open>n\<close> private subnets, exactly \<open>max n 2\<close> public
  subnets, exactly \<open>n\<close> elastic addresses and exactly \<open>n\<close> NAT gateways. The unit throws
  only for an empty list of domain names, and then after these descriptors were created.
\<close>

theorem NetworkConstruct_counts:
  assumes "1 \<le> n"
  shows "int (length (privateSubnetDescriptors
            (added t (NetworkConstruct readProperty scope ident acct region domains https n pre t)))) = n
     \<and> int (length (publicSubnetDescriptors
            (added t (NetworkConstruct readProperty scope ident acct region domains https n pre t)))) = max n 2
     \<and> int (length (emitted Eip
            (added t (NetworkConstruct readProperty scope ident acct region domains https n pre t)))) = n
     \<and> int (length (emitted NatGateway
            (added t (NetworkConstruct readProperty scope ident acct region domains https n pre t)))) = n
     \<and> (threw (NetworkConstruct readProperty scope ident acct region domains https n pre t)
          \<longleftrightarrow> domains = [])"
proof -
  obtain S where S: "map strip (added t (NetworkConstruct readProperty scope ident acct region domains https n pre t)) = S"
    and p: "counts S (nat n) (nat (max n 2)) (nat n) (nat n)
            \<and> (result_of (NetworkConstruct readProperty scope ident acct region domains https n pre t) = None
                 \<longleftrightarrow> domains = [])
            \<and> (\<forall>res. result_of (NetworkConstruct readProperty scope ident acct region domains https n pre t)
                        = Some res \<longrightarrow> length (Network_privateSubnets res) = nat n)"
    by (rule effect_added [OF NetworkConstruct_effect])
  from p have c: "counts (map strip (added t (NetworkConstruct readProperty scope ident acct region domains https n pre t)))
      (nat n) (nat (max n 2)) (nat n) (nat n)"
    unfolding S by (rule conjunct1)
  from p have r: "result_of (NetworkConstruct readProperty scope ident acct region domains https n pre t) = None
                 \<longleftrightarrow> domains = []"
    by (rule conjunct1 [OF conjunct2])
  from c have "counts (added t (NetworkConstruct readProperty scope ident acct region domains https n pre t))
      (nat n) (nat (max n 2)) (nat n) (nat n)"
    by (simp only: counts_map_strip)
  then have "length (privateSubnetDescriptors
        (added t (NetworkConstruct readProperty scope ident acct region domains https n pre t))) = nat n"
    and "length (publicSubnetDescriptors
        (added t (NetworkConstruct readProperty scope ident acct region domains https n pre t))) = nat (max n 2)"
    and "length (emitted Eip
        (added t (NetworkConstruct readProperty scope ident acct region domains https n pre t))) = nat n"
    and "length (emitted NatGateway
        (added t (NetworkConstruct readProperty scope ident acct region domains https n pre t))) = nat n"
    by (simp_all only: counts_def)
  moreover have "threw (NetworkConstruct readProperty scope ident acct region domains https n pre t)
      \<longleftrightarrow> domains = []"
    using r by (simp only: threw_result_of)
  ultimately show ?thesis
    using assms by simp
qed

theorem NetworkConstruct_counts_witness:
  "(1::int) \<le> 1
   \<and> length (privateSubnetDescriptors
        (added [] (NetworkConstruct getProp [''stack''] ''network''
           (example_resource DataAwsCallerIdentity ''current_account'') ''eu-west-1''
           [''example.com''] True 1 ''app'' []))) = 1
   \<and> length (publicSubnetDescriptors
        (added [] (NetworkConstruct getProp [''stack''] ''network''
           (example_resource DataAwsCallerIdentity ''current_account'') ''eu-west-1''
           [''example.com''] True 1 ''app'' []))) = 2
   \<and> length (emitted Eip
        (added [] (NetworkConstruct getProp [''stack''] ''network''
           (example_resource DataAwsCallerIdentity ''current_account'') ''eu-west-1''
           [''example.com''] True 1 ''app'' []))) = 1
   \<and> length (emitted NatGateway
        (added [] (NetworkConstruct getProp [''stack''] ''network''
           (example_resource DataAwsCallerIdentity ''current_account'') ''eu-west-1''
           [''example.com''] True 1 ''app'' []))) = 1
   \<and> \<not> threw (NetworkConstruct getProp [''stack''] ''network''
           (example_resource DataAwsCallerIdentity ''current_account'') ''eu-west-1''
           [''example.com''] True 1 ''app'' [])"
  using NetworkConstruct_counts [of 1 "[]" getProp "[''stack'']" "''network''"
      "example_resource DataAwsCallerIdentity ''current_account''" "''eu-west-1''"
      "[''example.com'']" True "''app''"]
  by simp
section \<open>The computing units\<close>

lemma noAutoScaling_Nil [simp]: "noAutoScaling []"
  by (simp add: noAutoScaling_def)

lemma noAutoScaling_Cons [simp]:
  "noAutoScaling (d # S) \<longleftrightarrow>
     kind d \<noteq> AppautoscalingTarget \<and> kind d \<noteq> AppautoscalingPolicy \<and> noAutoScaling S"
  by (auto simp add: noAutoScaling_def)

lemma noAutoScaling_append [simp]:
  "noAutoScaling (A @ B) \<longleftrightarrow> noAutoScaling A \<and> noAutoScaling B"
  by (auto simp add: noAutoScaling_def)

lemma noAutoScaling_kinds:
  assumes "\<forall>d \<in> set S. kind d \<noteq> AppautoscalingTarget \<and> kind d \<noteq> AppautoscalingPolicy"
  shows "noAutoScaling S"
  using assms by (induction S) simp_all

lemma noAutoScaling_scaling:
  assumes "noAutoScaling A"
  shows "scalingTargets (A @ B) = scalingTargets B" and "scalingPolicies (A @ B) = scalingPolicies B"
    and "scalingTargets A = []" and "scalingPolicies A = []"
  using assms by (simp_all add: noAutoScaling_def scalingTargets_def scalingPolicies_def)

lemma EnvironmentVariablesConstruct_application_effect:
  "effect (EnvironmentVariablesConstruct_application esc this env pre names acc)
     (\<lambda>r S. r \<noteq> None \<and> noAutoScaling S)"
proof (induction names arbitrary: acc)
  case Nil
  show ?case by (simp add: effect_Returned)
next
  case (Cons name names)
  show ?case
    unfolding EnvironmentVariablesConstruct_application.simps
    apply (rule effect_bind_new)
    apply (rule effect_weaken [OF Cons.IH])
    apply simp
    done
qed

lemma EnvironmentVariablesConstruct_builds_effect:
  "effect (EnvironmentVariablesConstruct_builds esc this env pre names acc)
     (\<lambda>r S. r \<noteq> None \<and> noAutoScaling S)"
proof (induction names arbitrary: acc)
  case Nil
  show ?case by (simp add: effect_Returned)
next
  case (Cons name names)
  show ?case
    unfolding EnvironmentVariablesConstruct_builds.simps
    apply (rule effect_bind_new)
    apply (rule effect_weaken [OF Cons.IH])
    apply simp
    done
qed

lemma EnvironmentVariablesConstruct_effect:
  "effect (EnvironmentVariablesConstruct esc scope ident benv env pre)
     (\<lambda>r S. r \<noteq> None \<and> noAutoScaling S)"
  unfolding EnvironmentVariablesConstruct_def Let_def
  apply (rule effect_bind [OF EnvironmentVariablesConstruct_application_effect])
   prefer 2 apply simp
  apply (rule effect_bind [OF EnvironmentVariablesConstruct_builds_effect])
   prefer 2 apply simp
  apply (rule effect_return effect_Returned)
  apply simp
  done

lemma ClusterConstruct_effect:
  "effect (ClusterConstruct scope ident pre) (\<lambda>r S. r \<noteq> None \<and> noAutoScaling S)"
  unfolding ClusterConstruct_def Let_def
  by (rule effect_new) simp

lemma RepositoryConstruct_effect:
  "effect (RepositoryConstruct scope ident img pre) (\<lambda>r S. r \<noteq> None \<and> noAutoScaling S)"
  unfolding RepositoryConstruct_def Let_def
  by (rule effect_new) simp

lemma TasksConstruct_effect:
  "effect (TasksConstruct esc scope ident lbsg port cname logs acct region repo envs cmd pre cpu mem v)
     (\<lambda>r S. r \<noteq> None \<and> noAutoScaling S)"
  unfolding TasksConstruct_def Let_def
  apply (intro effect_bind_new effect_bind_overrideNullValuesForSecurityGroup effect_return)
  apply simp
  done

lemma ServiceConstruct_effect:
  "effect (ServiceConstruct scope ident tg cl port cname cur main mn subs pre sg)
     (\<lambda>r S. (r = None \<longleftrightarrow> mn < 1) \<and> noAutoScaling S)"
  unfolding ServiceConstruct_def Let_def
  apply (rule effect_if)
   apply (rule effect_throw)
   apply simp
  apply (rule effect_new)
  apply simp
  done

lemma AutoScalingConstruct_rejects:
  assumes "\<not> acceptedByAutoScaling cpu mem mn mx"
  shows "threw (AutoScalingConstruct scope ident cl cpu mx mem mn pre svc t)"
    and "tree_of (AutoScalingConstruct scope ident cl cpu mx mem mn pre svc t) = t"
  using assms by (auto simp add: AutoScalingConstruct_def Let_def acceptedByAutoScaling_def)

lemma AutoScalingConstruct_effect:
  "effect (AutoScalingConstruct scope ident cl cpu mx mem mn pre svc)
     (\<lambda>r S. if acceptedByAutoScaling cpu mem mn mx
            then r = Some ()
              \<and> scalingTargets S = [(Number mn, Number mx)]
              \<and> scalingPolicies S =
                  [(Str ''ECSServiceAverageCPUUtilization'', Number 300, Number 300, Number cpu),
                   (Str ''ECSServiceAverageMemoryUtilization'', Number 300, Number 300, Number mem)]
            else r = None \<and> S = [])"
proof (cases "acceptedByAutoScaling cpu mem mn mx")
  case False
  show ?thesis
  proof (rule effectI)
    fix t
    from AutoScalingConstruct_rejects [OF False, of scope ident cl pre svc t]
    show "\<exists>S. map strip (tree_of (AutoScalingConstruct scope ident cl cpu mx mem mn pre svc t))
                = map strip t @ S
            \<and> (if acceptedByAutoScaling cpu mem mn mx
                then result_of (AutoScalingConstruct scope ident cl cpu mx mem mn pre svc t) = Some ()
                  \<and> scalingTargets S = [(Number mn, Number mx)]
                  \<and> scalingPolicies S =
                      [(Str ''ECSServiceAverageCPUUtilization'', Number 300, Number 300, Number cpu),
                       (Str ''ECSServiceAverageMemoryUtilization'', Number 300, Number 300,
                        Number mem)]
                else result_of (AutoScalingConstruct scope ident cl cpu mx mem mn pre svc t) = None
                  \<and> S = [])"
      using False by (simp add: threw_result_of)
  qed
next
  case True
  then have ok: "\<not> (mem < 1 \<or> 100 < mem)" "\<not> (cpu < 1 \<or> 100 < cpu)" "\<not> (mn < 1 \<or> mx < 1)"
    by (auto simp add: acceptedByAutoScaling_def)
  show ?thesis
    unfolding AutoScalingConstruct_def Let_def
    apply (simp only: ok if_False)
    apply (intro effect_bind_new effect_return)
    apply (simp add: True scalingTargets_def scalingPolicies_def targetTracking_def js_get_def)
    done
qed
lemma emitted_map_strip: "emitted k (map strip X) = map strip (emitted k X)"
  by (induction X) (simp_all add: emitted_def strip_def)

lemma scalingTargets_map_strip [simp]: "scalingTargets (map strip X) = scalingTargets X"
  by (simp add: scalingTargets_def emitted_map_strip strip_def)

lemma scalingPolicies_map_strip [simp]: "scalingPolicies (map strip X) = scalingPolicies X"
  by (simp add: scalingPolicies_def emitted_map_strip strip_def targetTracking_def)

lemma noAutoScaling_map_strip [simp]: "noAutoScaling (map strip X) \<longleftrightarrow> noAutoScaling X"
  by (simp add: noAutoScaling_def emitted_map_strip)

lemma scaling_Cons_other:
  assumes "kind d \<noteq> AppautoscalingTarget" and "kind d \<noteq> AppautoscalingPolicy"
  shows "scalingTargets (d # S) = scalingTargets S" and "scalingPolicies (d # S) = scalingPolicies S"
  using assms by (simp_all add: scalingTargets_def scalingPolicies_def emitted_def)

lemma ComputingConstruct_effect:
  "effect (ComputingConstruct esc scope ident props)
     (\<lambda>r S. (r = None \<longleftrightarrow>
                minimumNumberOfRunningFargateTasks props < 1
                \<or> enableAutoScaling props
                  \<and> \<not> acceptedByAutoScaling (autoScalingCpuLimitPercent props)
                        (autoScalingMemoryLimitPercent props)
                        (minimumNumberOfRunningFargateTasks props)
                        (maximumNumberOfRunningFargateTasks props))
            \<and> S \<noteq> []
            \<and> (if enableAutoScaling props
                  \<and> acceptedByAutoScaling (autoScalingCpuLimitPercent props)
                      (autoScalingMemoryLimitPercent props)
                      (minimumNumberOfRunningFargateTasks props)
                      (maximumNumberOfRunningFargateTasks props)
                then scalingTargets S =
                       [(Number (minimumNumberOfRunningFargateTasks props),
                         Number (maximumNumberOfRunningFargateTasks props))]
                  \<and> scalingPolicies S =
                      [(Str ''ECSServiceAverageCPUUtilization'', Number 300, Number 300,
                        Number (autoScalingCpuLimitPercent props)),
                       (Str ''ECSServiceAverageMemoryUtilization'', Number 300, Number 300,
                        Number (autoScalingMemoryLimitPercent props))]
                else noAutoScaling S))"
  unfolding ComputingConstruct_def Let_def
  apply (rule effect_bind_new)
  apply (rule effect_bind [OF EnvironmentVariablesConstruct_effect])
   prefer 2 apply simp
  apply (rule effect_bind [OF ClusterConstruct_effect])
   prefer 2 apply simp
  apply (rule effect_bind [OF RepositoryConstruct_effect])
   prefer 2 apply simp
  apply (rule effect_bind [OF TasksConstruct_effect])
   prefer 2 apply simp
  apply (rule effect_bind [OF ServiceConstruct_effect])
   prefer 2
   apply (simp add: acceptedByAutoScaling_def)
  apply (rule effect_bind [where \<Psi> = "\<lambda>r S.
            if enableAutoScaling props
            then (if acceptedByAutoScaling (autoScalingCpuLimitPercent props)
                      (autoScalingMemoryLimitPercent props)
                      (minimumNumberOfRunningFargateTasks props)
                      (maximumNumberOfRunningFargateTasks props)
                  then r = Some ()
                    \<and> scalingTargets S =
                        [(Number (minimumNumberOfRunningFargateTasks props),
                          Number (maximumNumberOfRunningFargateTasks props))]
                    \<and> scalingPolicies S =
                        [(Str ''ECSServiceAverageCPUUtilization'', Number 300, Number 300,
                          Number (autoScalingCpuLimitPercent props)),
                         (Str ''ECSServiceAverageMemoryUtilization'', Number 300, Number 300,
                          Number (autoScalingMemoryLimitPercent props))]
                  else r = None \<and> S = [])
            else r = Some () \<and> S = []"])
    apply (rule effect_if)
     apply (rule effect_weaken [OF AutoScalingConstruct_effect])
     apply simp
    apply (rule effect_return effect_Returned)
    apply simp
   apply (rule effect_return effect_Returned)
   apply (elim conjE)
   apply (simp add: noAutoScaling_scaling scaling_Cons_other split: if_splits)
  apply (elim conjE)
  apply (simp add: noAutoScaling_scaling scaling_Cons_other split: if_splits)
  done
lemma ComputingConstruct_added:
  obtains S where "map strip (added t (ComputingConstruct esc scope ident props t)) = S"
    and "result_of (ComputingConstruct esc scope ident props t) = None \<longleftrightarrow>
           minimumNumberOfRunningFargateTasks props < 1
           \<or> enableAutoScaling props
             \<and> \<not> acceptedByAutoScaling (autoScalingCpuLimitPercent props)
                   (autoScalingMemoryLimitPercent props)
                   (minimumNumberOfRunningFargateTasks props)
                   (maximumNumberOfRunningFargateTasks props)"
    and "S \<noteq> []"
    and "if enableAutoScaling props
            \<and> acceptedByAutoScaling (autoScalingCpuLimitPercent props)
                (autoScalingMemoryLimitPercent props)
                (minimumNumberOfRunningFargateTasks props)
                (maximumNumberOfRunningFargateTasks props)
         then scalingTargets S =
                [(Number (minimumNumberOfRunningFargateTasks props),
                  Number (maximumNumberOfRunningFargateTasks props))]
           \<and> scalingPolicies S =
               [(Str ''ECSServiceAverageCPUUtilization'', Number 300, Number 300,
                 Number (autoScalingCpuLimitPercent props)),
                (Str ''ECSServiceAverageMemoryUtilization'', Number 300, Number 300,
                 Number (autoScalingMemoryLimitPercent props))]
         else noAutoScaling S"
proof -
  obtain S where S: "map strip (added t (ComputingConstruct esc scope ident props t)) = S"
    and p: "(result_of (ComputingConstruct esc scope ident props t) = None \<longleftrightarrow>
           minimumNumberOfRunningFargateTasks props < 1
           \<or> enableAutoScaling props
             \<and> \<not> acceptedByAutoScaling (autoScalingCpuLimitPercent props)
                   (autoScalingMemoryLimitPercent props)
                   (minimumNumberOfRunningFargateTasks props)
                   (maximumNumberOfRunningFargateTasks props))
        \<and> S \<noteq> []
        \<and> (if enableAutoScaling props
            \<and> acceptedByAutoScaling (autoScalingCpuLimitPercent props)
                (autoScalingMemoryLimitPercent props)
                (minimumNumberOfRunningFargateTasks props)
                (maximumNumberOfRunningFargateTasks props)
         then scalingTargets S =
                [(Number (minimumNumberOfRunningFargateTasks props),
                  Number (maximumNumberOfRunningFargateTasks props))]
           \<and> scalingPolicies S =
               [(Str ''ECSServiceAverageCPUUtilization'', Number 300, Number 300,
                 Number (autoScalingCpuLimitPercent props)),
                (Str ''ECSServiceAverageMemoryUtilization'', Number 300, Number 300,
                 Number (autoScalingMemoryLimitPercent props))]
         else noAutoScaling S)"
    by (rule effect_added [OF ComputingConstruct_effect])
  show ?thesis
    apply (rule that [OF S])
      apply (rule conjunct1 [OF p])
     apply (rule conjunct1 [OF conjunct2 [OF p]])
    apply (rule conjunct2 [OF conjunct2 [OF p]])
    done
qed

text \<open>
  What the computing composition does about auto-scaling, from any tree \<open>t\<close>: whether it
  throws, and the scaling targets and policies among the descriptors it adds.
\<close>

lemma ComputingConstruct_scaling:
  "(threw (ComputingConstruct esc scope ident props t) \<longleftrightarrow>
           minimumNumberOfRunningFargateTasks props < 1
           \<or> enableAutoScaling props
             \<and> \<not> acceptedByAutoScaling (autoScalingCpuLimitPercent props)
                   (autoScalingMemoryLimitPercent props)
                   (minimumNumberOfRunningFargateTasks props)
                   (maximumNumberOfRunningFargateTasks props))
   \<and> added t (ComputingConstruct esc scope ident props t) \<noteq> []
   \<and> (if enableAutoScaling props
          \<and> acceptedByAutoScaling (autoScalingCpuLimitPercent props)
              (autoScalingMemoryLimitPercent props)
              (minimumNumberOfRunningFargateTasks props)
              (maximumNumberOfRunningFargateTasks props)
       then scalingTargets (added t (ComputingConstruct esc scope ident props t)) =
              [(Number (minimumNumberOfRunningFargateTasks props),
                Number (maximumNumberOfRunningFargateTasks props))]
         \<and> scalingPolicies (added t (ComputingConstruct esc scope ident props t)) =
             [(Str ''ECSServiceAverageCPUUtilization'', Number 300, Number 300,
               Number (autoScalingCpuLimitPercent props)),
              (Str ''ECSServiceAverageMemoryUtilization'', Number 300, Number 300,
               Number (autoScalingMemoryLimitPercent props))]
       else noAutoScaling (added t (ComputingConstruct esc scope ident props t)))"
proof -
  obtain S where S: "map strip (added t (ComputingConstruct esc scope ident props t)) = S"
    and r: "result_of (ComputingConstruct esc scope ident props t) = None \<longleftrightarrow>
           minimumNumberOfRunningFargateTasks props < 1
           \<or> enableAutoScaling props
             \<and> \<not> acceptedByAutoScaling (autoScalingCpuLimitPercent props)
                   (autoScalingMemoryLimitPercent props)
                   (minimumNumberOfRunningFargateTasks props)
                   (maximumNumberOfRunningFargateTasks props)"
    and n: "S \<noteq> []"
    and s: "if enableAutoScaling props
            \<and> acceptedByAutoScaling (autoScalingCpuLimitPercent props)
                (autoScalingMemoryLimitPercent props)
                (minimumNumberOfRunningFargateTasks props)
                (maximumNumberOfRunningFargateTasks props)
         then scalingTargets S =
                [(Number (minimumNumberOfRunningFargateTasks props),
                  Number (maximumNumberOfRunningFargateTasks props))]
           \<and> scalingPolicies S =
               [(Str ''ECSServiceAverageCPUUtilization'', Number 300, Number 300,
                 Number (autoScalingCpuLimitPercent props)),
                (Str ''ECSServiceAverageMemoryUtilization'', Number 300, Number 300,
                 Number (autoScalingMemoryLimitPercent props))]
         else noAutoScaling S"
    by (rule ComputingConstruct_added)
  from n have "added t (ComputingConstruct esc scope ident props t) \<noteq> []"
    unfolding S [symmetric] by simp
  moreover note r [folded threw_result_of]
  moreover note s [folded S, unfolded scalingTargets_map_strip scalingPolicies_map_strip
      noAutoScaling_map_strip]
  ultimately show ?thesis
    by (intro conjI)
qed






text \<open>
  Claim C7. For every minimum number of running tasks below 1 the service unit throws, and
  so does the auto-scaling unit, each before it creates a descriptor; the computing
  composition, which runs the service unit before the auto-scaling unit, throws whether or
  not auto-scaling is enabled.
\<close>

theorem minimumNumberOfRunningTasks_below_one:
  assumes "mn < 1"
  shows "threw (ServiceConstruct scope ident tg cl port cname cur main mn subs pre sg t)
     \<and> tree_of (ServiceConstruct scope ident tg cl port cname cur main mn subs pre sg t) = t
     \<and> threw (AutoScalingConstruct scope' ident' cl' cpu mx mem mn pre' svc t')
     \<and> tree_of (AutoScalingConstruct scope' ident' cl' cpu mx mem mn pre' svc t') = t'
     \<and> threw (ComputingConstruct esc scope'' ident''
          (props\<lparr>minimumNumberOfRunningFargateTasks := mn\<rparr>) t'')"
proof -
  from assms have "\<not> acceptedByAutoScaling cpu mem mn mx"
    by (simp add: acceptedByAutoScaling_def)
  then have "threw (AutoScalingConstruct scope' ident' cl' cpu mx mem mn pre' svc t')"
    and "tree_of (AutoScalingConstruct scope' ident' cl' cpu mx mem mn pre' svc t') = t'"
    by (rule AutoScalingConstruct_rejects)+
  moreover from assms
  have "ServiceConstruct scope ident tg cl port cname cur main mn subs pre sg t
          = Threw (Error ''Your Fargate cluster must run at least one task'') t"
    by (simp add: ServiceConstruct_def Let_def throw_def)
  moreover have "threw (ComputingConstruct esc scope'' ident''
          (props\<lparr>minimumNumberOfRunningFargateTasks := mn\<rparr>) t'')"
    using ComputingConstruct_scaling [of esc scope'' ident''
        "props\<lparr>minimumNumberOfRunningFargateTasks := mn\<rparr>" t''] assms
    by simp
  ultimately show ?thesis by simp
qed

theorem minimumNumberOfRunningTasks_below_one_witness:
  "(0::int) < 1
   \<and> threw (ServiceConstruct [''stack''] ''service'' (example_resource LbTargetGroup ''tg'')
        (example_resource EcsCluster ''cluster'') 80 ''main''
        (example_resource DataAwsEcsTaskDefinition ''current'')
        (example_resource EcsTaskDefinition ''main'') 0 [] ''app''
        (example_resource SecurityGroup ''sg'') [])
   \<and> threw (AutoScalingConstruct [''stack''] ''auto_scaling''
        (example_resource EcsCluster ''cluster'') 75 2 75 0 ''app''
        (example_resource EcsService ''service'') [])
   \<and> threw (ComputingConstruct (\<lambda>s. s) [''stack''] ''computing''
        (example_props\<lparr>minimumNumberOfRunningFargateTasks := 0, enableAutoScaling := False\<rparr>) [])"
  using minimumNumberOfRunningTasks_below_one [of 0 "[''stack'']" "''service''"
      "example_resource LbTargetGroup ''tg''" "example_resource EcsCluster ''cluster''" 80
      "''main''" "example_resource DataAwsEcsTaskDefinition ''current''"
      "example_resource EcsTaskDefinition ''main''" "[]" "''app''"
      "example_resource SecurityGroup ''sg''" "[]" "[''stack'']" "''auto_scaling''"
      "example_resource EcsCluster ''cluster''" 75 2 75 "''app''"
      "example_resource EcsService ''service''" "[]" "\<lambda>s. s" "[''stack'']" "''computing''"
      "example_props\<lparr>enableAutoScaling := False\<rparr>" "[]"]
  by (simp add: example_props_def)
section \<open>The secret parameters\<close>

text \<open>
  Claim C3, at an input where it fails. The names \<open>APPLICATION___proto__\<close> and
  \<open>APPLICATION_KEY\<close> both pass the entry point's check of the name format and both carry
  the application prefix. The entry point stores the first under the name \<open>__proto__\<close> of a
  plain object, which leaves the object without such a property, so the composition creates
  a single application secret parameter, for \<open>KEY\<close>, and none for \<open>__proto__\<close>.
\<close>

theorem secretParameters_proto_dropped:
  "\<exists>r t. secretParameters (\<lambda>s. s) [''stack''] ''environment_variables'' ''app''
            [(''APPLICATION___proto__'', ''secret''), (''APPLICATION_KEY'', ''value'')] []
          = Returned r t
     \<and> map secretName (EnvironmentVariables_applicationEnvironmentVariables r) = [''KEY'']
     \<and> EnvironmentVariables_buildsEnvironmentVariables r = []
     \<and> map secretName (emitted SsmParameter t) = [''KEY'']"
  by (simp add: secretParameters_def main_checkNames_def matches_name_format_def
      main_environmentVariables_def main_buildsEnvironmentVariables_def startsWith_def
      removePrefix_def js_set_def process_env_get_def EnvironmentVariablesConstruct_def
      Object_keys_def is_array_index_def Let_def secretName_def emitted_def js_get_def
      bind_def return_def new_Returned)
section \<open>The null-override invariant is kept by every unit\<close>


lemma nulled_tree_Nil [simp]: "nulled_tree readProperty []"
  by (simp add: nulled_tree_def)

lemma nulled_tree_append [simp]:
  "nulled_tree readProperty (A @ B) \<longleftrightarrow> nulled_tree readProperty A \<and> nulled_tree readProperty B"
  by (simp add: nulled_tree_def)

lemma nulled_tree_Cons [simp]:
  "nulled_tree readProperty (d # B) \<longleftrightarrow> nulled readProperty d \<and> nulled_tree readProperty B"
  by (simp add: nulled_tree_def)


















































end
